theory Spec2Isabelle
  imports Complex_Main
begin

section \<open>Tensors and the TensorFlow operations used by the module\<close>

text \<open>
  The module self_similarity_rnn_graph.py builds a TensorFlow graph. The embedding
  below describes the values that graph computes. A \<open>tf.float32\<close> scalar is
  idealised as a real number: the theorems are about the mathematical function the graph
  denotes, and rounding, overflow and NaN are outside the model. Shapes are exact.

  A rank-3 tensor carries its shape next to its values, since a dimension of size 0
  leaves the inner sizes unreadable from nested lists, while \<open>tf.shape\<close> still
  returns them.
\<close>

text \<open>
  \<open>ValueError\<close> is the one error the module raises itself. The others are failures of
  the Python and TensorFlow operations it calls: a failed shape check (at construction or at
  execution), a map over no elements, a list index out of range, a local variable read
  before assignment, a multi-cell built from no cells, a class label outside the logits.
\<close>

datatype error =
    ValueError string
  | ShapeError
  | EmptyTensorArray
  | IndexError
  | UnboundLocalError
  | EmptyCells
  | LabelOutOfRange

record tensor3 =
  dim0 :: nat
  dim1 :: nat
  dim2 :: nat
  vals :: "real list list list"

definition wf_tensor :: "tensor3 \<Rightarrow> bool" where
  "wf_tensor t \<longleftrightarrow>
     length (vals t) = dim0 t \<and>
     (\<forall>m \<in> set (vals t). length m = dim1 t \<and> (\<forall>r \<in> set m. length r = dim2 t))"

definition at3 :: "tensor3 \<Rightarrow> nat \<Rightarrow> nat \<Rightarrow> nat \<Rightarrow> real" where
  "at3 t b i j = vals t ! b ! i ! j"

text \<open>
  A slice bound \<open>k\<close> in a dimension of size \<open>n\<close>, as Python and
  \<open>tf.strided_slice\<close> read it for stride 1: a negative bound counts from the end,
  and the result is clamped into \<open>[0, n]\<close>. The module itself relies on the negative
  case in \<open>targets[:, :-1, :]\<close>.
\<close>

definition slice_bound :: "int \<Rightarrow> nat \<Rightarrow> nat" where
  "slice_bound k n = (if k < 0 then nat (max 0 (k + int n)) else min (nat k) n)"

definition slice_to :: "int \<Rightarrow> 'a list \<Rightarrow> 'a list" where
  "slice_to k xs = take (slice_bound k (length xs)) xs"

definition slice_from :: "int \<Rightarrow> 'a list \<Rightarrow> 'a list" where
  "slice_from k xs = drop (slice_bound k (length xs)) xs"

definition tf_range :: "int \<Rightarrow> int \<Rightarrow> int list" where
  "tf_range start limit = map (\<lambda>k. start + int k) [0..<nat (limit - start)]"

definition softmax :: "real list \<Rightarrow> real list" where
  "softmax xs = map (\<lambda>x. exp x / sum_list (map exp xs)) xs"

definition zeros_like :: "real list \<Rightarrow> real list" where
  "zeros_like xs = map (\<lambda>_. 0) xs"

text \<open>\<open>tf.transpose(t, [1, 0, 2])\<close>: the first two axes change places.\<close>

definition transpose_102 :: "tensor3 \<Rightarrow> tensor3" where
  "transpose_102 t =
     \<lparr>dim0 = dim1 t, dim1 = dim0 t, dim2 = dim2 t,
      vals = map (\<lambda>i. map (\<lambda>m. m ! i) (vals t)) [0..<dim1 t]\<rparr>"

text \<open>
  \<open>tf.matmul(a, b)\<close> on rank-3 tensors: one matrix product per batch element. The
  batch sizes and the inner dimensions have to agree.
\<close>

definition matmul :: "tensor3 \<Rightarrow> tensor3 \<Rightarrow> error + tensor3" where
  "matmul a b =
     (if dim0 a \<noteq> dim0 b \<or> dim2 a \<noteq> dim1 b then Inl ShapeError
      else Inr \<lparr>dim0 = dim0 a, dim1 = dim1 a, dim2 = dim2 b,
                vals = map2 (\<lambda>ma mb.
                         map (\<lambda>row. map (\<lambda>d. \<Sum>j<dim1 b. row ! j * mb ! j ! d) [0..<dim2 b]) ma)
                       (vals a) (vals b)\<rparr>)"

section \<open>similarity_weighted_attention\<close>

text \<open>
  The function mapped over the steps: \<open>step\<close> is the slice bound of the row, \<open>sim\<close>
  the similarities of that input step for every batch element.
\<close>

definition similarity_to_attention :: "int \<times> real list list \<Rightarrow> real list list" where
  "similarity_to_attention enumerated_similarity =
     (case enumerated_similarity of (step, sim) \<Rightarrow>
        map (\<lambda>row. softmax (slice_to step row) @ zeros_like (slice_from step row)) sim)"

text \<open>
  \<open>tf.map_fn(fn, elems)\<close> applies \<open>fn\<close> to the elements along the first axis and
  stacks the results. It collects them in a tensor array, and stacking a tensor array of
  size zero needs the shape of an element to be known when the graph is built. The shape of
  a result of similarity_to_attention is not, since its slices are cut at a bound computed
  when the graph runs, so mapping over no step fails at execution.
\<close>

definition tf_map_fn :: "('a \<Rightarrow> 'b) \<Rightarrow> 'a list \<Rightarrow> error + 'b list" where
  "tf_map_fn fn elems = (if elems = [] then Inl EmptyTensorArray else Inr (map fn elems))"

text \<open>The local \<open>attention\<close> of similarity_weighted_attention (lines 93 to 108).\<close>

definition attention :: "tensor3 \<Rightarrow> error + tensor3" where
  "attention self_similarity =
     (let num_input_steps = dim1 self_similarity;
          num_target_steps = dim2 self_similarity;
          steps = tf_range (int num_target_steps - int num_input_steps + 1)
                           (int num_target_steps + 1);
          transposed_self_similarity = transpose_102 self_similarity
      in case tf_map_fn similarity_to_attention
                (zip steps (vals transposed_self_similarity)) of
           Inl err \<Rightarrow> Inl err
         | Inr rows \<Rightarrow>
             Inr (transpose_102
                    \<lparr>dim0 = dim0 transposed_self_similarity,
                     dim1 = dim1 transposed_self_similarity,
                     dim2 = dim2 transposed_self_similarity,
                     vals = rows\<rparr>))"

definition similarity_weighted_attention :: "tensor3 \<Rightarrow> tensor3 \<Rightarrow> error + tensor3" where
  "similarity_weighted_attention targets self_similarity =
     (case attention self_similarity of
        Inl err \<Rightarrow> Inl err
      | Inr attention_weights \<Rightarrow> matmul attention_weights targets)"

section \<open>input_embeddings and self_similarity_attention\<close>

text \<open>
  \<open>tf.contrib.layers.conv2d\<close> creates a kernel of shape
  \<open>[1, input_size, 1, embedding_size]\<close> and a bias of shape \<open>[embedding_size]\<close>.
  Their values are learned, so the model takes them as given: \<open>var_weights v k e\<close> is
  the kernel entry for input feature \<open>k\<close> and output channel \<open>e\<close>.
\<close>

record dense_variables =
  var_weights :: "nat \<Rightarrow> nat \<Rightarrow> real"
  var_biases :: "nat \<Rightarrow> real"

definition relu :: "real \<Rightarrow> real" where
  "relu x = max x 0"

text \<open>
  With padding VALID the convolution over a row of width \<open>input_size\<close> leaves one
  column, which \<open>tf.squeeze\<close> removes; a row of any other width makes the convolution
  or the squeeze fail.
\<close>

definition input_embeddings ::
    "dense_variables \<Rightarrow> tensor3 \<Rightarrow> nat \<Rightarrow> nat \<Rightarrow> error + tensor3" where
  "input_embeddings variables inputs input_size embedding_size =
     (if dim2 inputs \<noteq> input_size then Inl ShapeError
      else Inr \<lparr>dim0 = dim0 inputs, dim1 = dim1 inputs, dim2 = embedding_size,
                vals = map (map (\<lambda>x.
                         map (\<lambda>e. relu ((\<Sum>k<input_size. x ! k * var_weights variables k e)
                                         + var_biases variables e))
                             [0..<embedding_size]))
                       (vals inputs)\<rparr>)"

text \<open>\<open>tf.concat([a, b], axis=1)\<close> and \<open>tf.concat([a, b], axis=2)\<close>.\<close>

definition concat_axis1 :: "tensor3 \<Rightarrow> tensor3 \<Rightarrow> error + tensor3" where
  "concat_axis1 a b =
     (if dim0 a \<noteq> dim0 b \<or> dim2 a \<noteq> dim2 b then Inl ShapeError
      else Inr \<lparr>dim0 = dim0 a, dim1 = dim1 a + dim1 b, dim2 = dim2 a,
                vals = map2 (@) (vals a) (vals b)\<rparr>)"

definition concat_axis2 :: "tensor3 \<Rightarrow> tensor3 \<Rightarrow> error + tensor3" where
  "concat_axis2 a b =
     (if dim0 a \<noteq> dim0 b \<or> dim1 a \<noteq> dim1 b then Inl ShapeError
      else Inr \<lparr>dim0 = dim0 a, dim1 = dim1 a, dim2 = dim2 a + dim2 b,
                vals = map2 (map2 (@)) (vals a) (vals b)\<rparr>)"

text \<open>\<open>t[:, :k, :]\<close> and \<open>t[:, k:, :]\<close>.\<close>

definition slice_axis1_to :: "int \<Rightarrow> tensor3 \<Rightarrow> tensor3" where
  "slice_axis1_to k t =
     \<lparr>dim0 = dim0 t, dim1 = slice_bound k (dim1 t), dim2 = dim2 t,
      vals = map (take (slice_bound k (dim1 t))) (vals t)\<rparr>"

definition slice_axis1_from :: "int \<Rightarrow> tensor3 \<Rightarrow> tensor3" where
  "slice_axis1_from k t =
     \<lparr>dim0 = dim0 t, dim1 = dim1 t - slice_bound k (dim1 t), dim2 = dim2 t,
      vals = map (drop (slice_bound k (dim1 t))) (vals t)\<rparr>"

text \<open>\<open>tf.matmul(a, b, transpose_b=True)\<close>.\<close>

definition matmul_transpose_b :: "tensor3 \<Rightarrow> tensor3 \<Rightarrow> error + tensor3" where
  "matmul_transpose_b a b =
     (if dim0 a \<noteq> dim0 b \<or> dim2 a \<noteq> dim2 b then Inl ShapeError
      else Inr \<lparr>dim0 = dim0 a, dim1 = dim1 a, dim2 = dim1 b,
                vals = map2 (\<lambda>ma mb.
                         map (\<lambda>row. map (\<lambda>j. \<Sum>e<dim2 b. row ! e * mb ! j ! e) [0..<dim1 b]) ma)
                       (vals a) (vals b)\<rparr>)"

text \<open>
  The two calls of input_embeddings create two sets of variables (the scopes
  \<open>Conv\<close> and \<open>Conv_1\<close>), here \<open>conv\<close> and \<open>conv_1\<close>.
\<close>

definition self_similarity_attention ::
    "dense_variables \<Rightarrow> dense_variables \<Rightarrow> tensor3 \<Rightarrow> tensor3 \<Rightarrow> nat \<Rightarrow> nat \<Rightarrow> nat
      \<Rightarrow> error + (tensor3 \<times> tensor3)" where
  "self_similarity_attention conv conv_1 inputs past_inputs batch_size input_size
       embedding_size =
     (case input_embeddings conv inputs input_size embedding_size of
        Inl err \<Rightarrow> Inl err
      | Inr embeddings \<Rightarrow>
     (case concat_axis1 past_inputs inputs of
        Inl err \<Rightarrow> Inl err
      | Inr targets \<Rightarrow>
     (case input_embeddings conv_1 (slice_axis1_to (- 1) targets) input_size embedding_size of
        Inl err \<Rightarrow> Inl err
      | Inr target_embeddings \<Rightarrow>
     (case matmul_transpose_b embeddings target_embeddings of
        Inl err \<Rightarrow> Inl err
      | Inr self_similarity \<Rightarrow>
     (case similarity_weighted_attention (slice_axis1_from 1 targets) self_similarity of
        Inl err \<Rightarrow> Inl err
      | Inr attention_outputs \<Rightarrow> Inr (attention_outputs, self_similarity))))))"

section \<open>build_graph\<close>

subsection \<open>Configuration and collaborators\<close>

record hparams =
  hp_batch_size :: nat
  hp_rnn_layer_sizes :: "nat list list"
  hp_embedding_sizes :: "nat list"
  hp_learning_rate :: real
  hp_clip_norm :: real

record encoder_decoder =
  ed_input_size :: nat
  ed_num_classes :: nat
  ed_default_event_label :: int
  ed_labels_to_num_steps :: "int list \<Rightarrow> int"

record config =
  cfg_hparams :: hparams
  cfg_encoder_decoder :: encoder_decoder

datatype cell = BasicLSTMCell nat | MultiRNNCell "cell list"

text \<open>The streaming metrics of \<open>tf.metrics\<close>, by the arguments they are built from.\<close>

datatype metric =
    MetricMean "real list" "real option"
  | MetricAccuracy "int list" "int list"
  | MetricMeanPerClassAccuracy "int list" "int list" nat
  | MetricRecall "real list" "real list"

text \<open>
  What lies outside the module: the batching source, the recurrent cells and their
  learned variables, the variables of the embedding and output layers, the values fed to
  the placeholders in generate mode, and the current value of a streaming metric.
  \<open>'s\<close> is the structured state of a recurrent cell.
\<close>

record 's tf_env =
  env_get_padded_batch ::
    "string list option \<Rightarrow> nat \<Rightarrow> nat \<Rightarrow> bool \<Rightarrow> tensor3 \<times> int list list \<times> nat list"
  env_zero_state :: "cell \<Rightarrow> nat \<Rightarrow> 's"
  env_dynamic_rnn :: "nat \<Rightarrow> cell \<Rightarrow> tensor3 \<Rightarrow> nat list option \<Rightarrow> 's \<Rightarrow> tensor3 \<times> 's"
  env_conv :: "nat \<Rightarrow> dense_variables"
  env_conv_1 :: "nat \<Rightarrow> dense_variables"
  env_linear :: dense_variables
  env_inputs :: tensor3
  env_past_targets :: "nat \<Rightarrow> tensor3"
  env_temperature :: real
  env_metric_value :: "metric \<Rightarrow> real"
  env_nest_flatten :: "'s \<Rightarrow> real list list list"

text \<open>
  A graph is described by its collections: \<open>tf.add_to_collection\<close> appends an element
  to the collection of that name, and summaries are collected under \<open>summaries\<close>.
\<close>

datatype graph_element =
    Scalar real
  | Tensor tensor3
  | StateTensor "real list list"
  | TrainOp real real real
  | UpdateOp metric
  | ScalarSummary string real
  | ImageSummary string tensor3 nat

type_synonym graph = "string \<Rightarrow> graph_element list"

definition empty_graph :: graph where
  "empty_graph = (\<lambda>_. [])"

definition add_to_collection :: "string \<Rightarrow> graph_element \<Rightarrow> graph \<Rightarrow> graph" where
  "add_to_collection name element g = g(name := g name @ [element])"

subsection \<open>Python list access\<close>

definition py_index :: "'a list \<Rightarrow> nat \<Rightarrow> error + 'a" where
  "py_index xs i = (if i < length xs then Inr (xs ! i) else Inl IndexError)"

definition py_last :: "'a list \<Rightarrow> error + 'a" where
  "py_last xs = (if xs = [] then Inl IndexError else Inr (last xs))"

subsection \<open>The recurrent stack\<close>

definition make_rnn_cell :: "nat list \<Rightarrow> (nat \<Rightarrow> cell) \<Rightarrow> error + cell" where
  "make_rnn_cell rnn_layer_sizes base_cell =
     (let cells = fold (\<lambda>num_units cells. cells @ [base_cell num_units]) rnn_layer_sizes []
      in if cells = [] then Inl EmptyCells else Inr (MultiRNNCell cells))"

text \<open>The lists and variables the loop over the layers updates (lines 204 to 237).\<close>

record 's layer_stack =
  ls_targets :: "tensor3 list"
  ls_initial_state :: "'s list"
  ls_final_state :: "'s list"
  ls_self_similarity :: "tensor3 list"
  ls_layer_inputs :: tensor3
  ls_outputs :: "tensor3 option"

text \<open>One pass through the body of the loop, for layer number \<open>layer\<close>.\<close>

definition rnn_layer ::
    "'s tf_env \<Rightarrow> hparams \<Rightarrow> nat list option \<Rightarrow> tensor3 list \<Rightarrow> nat \<Rightarrow> 's layer_stack
      \<Rightarrow> error + 's layer_stack" where
  "rnn_layer env hparams lengths past_targets layer st =
     (case py_index (hp_rnn_layer_sizes hparams) layer of
        Inl err \<Rightarrow> Inl err
      | Inr sizes \<Rightarrow>
     (case make_rnn_cell sizes BasicLSTMCell of
        Inl err \<Rightarrow> Inl err
      | Inr cell \<Rightarrow>
     (let layer_initial_state = env_zero_state env cell (hp_batch_size hparams);
          rnn_result = env_dynamic_rnn env layer cell (ls_layer_inputs st) lengths
                         layer_initial_state;
          rnn_outputs = fst rnn_result;
          layer_final_state = snd rnn_result
      in
     (case py_index past_targets layer of
        Inl err \<Rightarrow> Inl err
      | Inr past \<Rightarrow>
     (case py_last sizes of
        Inl err \<Rightarrow> Inl err
      | Inr input_size \<Rightarrow>
     (case py_index (hp_embedding_sizes hparams) layer of
        Inl err \<Rightarrow> Inl err
      | Inr embedding_size \<Rightarrow>
     (case self_similarity_attention (env_conv env layer) (env_conv_1 env layer)
             rnn_outputs past (hp_batch_size hparams) input_size embedding_size of
        Inl err \<Rightarrow> Inl err
      | Inr (attention_outputs, layer_self_similarity) \<Rightarrow>
     (case concat_axis2 rnn_outputs attention_outputs of
        Inl err \<Rightarrow> Inl err
      | Inr outputs \<Rightarrow>
          Inr \<lparr>ls_targets = ls_targets st @ [rnn_outputs],
               ls_initial_state = ls_initial_state st @ [layer_initial_state],
               ls_final_state = ls_final_state st @ [layer_final_state],
               ls_self_similarity = ls_self_similarity st @ [layer_self_similarity],
               ls_layer_inputs = outputs,
               ls_outputs = Some outputs\<rparr>))))))))"

fun rnn_layers ::
    "'s tf_env \<Rightarrow> hparams \<Rightarrow> nat list option \<Rightarrow> tensor3 list \<Rightarrow> nat list \<Rightarrow> 's layer_stack
      \<Rightarrow> error + 's layer_stack" where
  "rnn_layers env hparams lengths past_targets [] st = Inr st"
| "rnn_layers env hparams lengths past_targets (layer # layers) st =
     (case rnn_layer env hparams lengths past_targets layer st of
        Inl err \<Rightarrow> Inl err
      | Inr st' \<Rightarrow> rnn_layers env hparams lengths past_targets layers st')"

subsection \<open>Inputs and past targets\<close>

definition tf_zeros :: "nat \<Rightarrow> nat \<Rightarrow> nat \<Rightarrow> tensor3" where
  "tf_zeros b t d = \<lparr>dim0 = b, dim1 = t, dim2 = d, vals = replicate b (replicate t (replicate d 0))\<rparr>"

text \<open>Lines 191 to 193: one empty history per layer.\<close>

fun zero_past_targets :: "hparams \<Rightarrow> nat list \<Rightarrow> tensor3 list \<Rightarrow> error + tensor3 list" where
  "zero_past_targets hparams [] past_targets = Inr past_targets"
| "zero_past_targets hparams (layer # layers) past_targets =
     (case py_index (hp_rnn_layer_sizes hparams) layer of
        Inl err \<Rightarrow> Inl err
      | Inr sizes \<Rightarrow>
     (case py_last sizes of
        Inl err \<Rightarrow> Inl err
      | Inr target_size \<Rightarrow>
          zero_past_targets hparams layers
            (past_targets @ [tf_zeros (hp_batch_size hparams) 0 target_size])))"

text \<open>
  Lines 198 to 202: one placeholder of shape \<open>[batch_size, None, size]\<close> per layer. A
  value fed to a placeholder has to fit its shape.
\<close>

definition placeholder :: "nat \<Rightarrow> nat \<Rightarrow> tensor3 \<Rightarrow> error + tensor3" where
  "placeholder b d fed = (if dim0 fed \<noteq> b \<or> dim2 fed \<noteq> d then Inl ShapeError else Inr fed)"

fun placeholder_past_targets ::
    "'s tf_env \<Rightarrow> hparams \<Rightarrow> nat list \<Rightarrow> tensor3 list \<Rightarrow> error + tensor3 list" where
  "placeholder_past_targets env hparams [] past_targets = Inr past_targets"
| "placeholder_past_targets env hparams (layer # layers) past_targets =
     (case py_index (hp_rnn_layer_sizes hparams) layer of
        Inl err \<Rightarrow> Inl err
      | Inr sizes \<Rightarrow>
     (case py_last sizes of
        Inl err \<Rightarrow> Inl err
      | Inr target_size \<Rightarrow>
     (case placeholder (hp_batch_size hparams) target_size (env_past_targets env layer) of
        Inl err \<Rightarrow> Inl err
      | Inr p \<Rightarrow> placeholder_past_targets env hparams layers (past_targets @ [p]))))"

text \<open>
  Lines 184 to 202. The last branch is not reached from build_graph, whose guard has
  excluded every other mode; there \<open>inputs\<close> would still be \<open>None\<close>.
\<close>

definition graph_inputs ::
    "string \<Rightarrow> hparams \<Rightarrow> nat \<Rightarrow> string list option \<Rightarrow> 's tf_env
      \<Rightarrow> error + (tensor3 \<times> int list list option \<times> nat list option \<times> tensor3 list)" where
  "graph_inputs mode hparams input_size sequence_example_file_paths env =
     (let num_layers = length (hp_rnn_layer_sizes hparams) in
      if mode = ''train'' \<or> mode = ''eval'' then
        (case env_get_padded_batch env sequence_example_file_paths (hp_batch_size hparams)
                input_size (mode = ''train'') of
           (inputs, labels, lengths) \<Rightarrow>
             (case zero_past_targets hparams [0..<num_layers] [] of
                Inl err \<Rightarrow> Inl err
              | Inr past_targets \<Rightarrow> Inr (inputs, Some labels, Some lengths, past_targets)))
      else if mode = ''generate'' then
        (case placeholder (hp_batch_size hparams) input_size (env_inputs env) of
           Inl err \<Rightarrow> Inl err
         | Inr inputs \<Rightarrow>
             (case placeholder_past_targets env hparams [0..<num_layers] [] of
                Inl err \<Rightarrow> Inl err
              | Inr past_targets \<Rightarrow> Inr (inputs, None, None, past_targets)))
      else Inl UnboundLocalError)"

subsection \<open>Flattening and the output layer\<close>

text \<open>
  Modelled from the spec: \<open>magenta.common.flatten_maybe_padded_sequences\<close> is not among
  the sources. Given a padded batch and the lengths it returns the concatenation of the
  valid steps only, batch-major and then in time order; without lengths (generate mode)
  every step is valid.
\<close>

definition flatten_maybe_padded_sequences :: "'a list list \<Rightarrow> nat list option \<Rightarrow> 'a list" where
  "flatten_maybe_padded_sequences maybe_padded_sequences lengths =
     (case lengths of
        None \<Rightarrow> concat maybe_padded_sequences
      | Some ls \<Rightarrow> concat (map2 (\<lambda>sequence n. take n sequence) maybe_padded_sequences ls))"

text \<open>
  \<open>tf.contrib.layers.linear(inputs, num_outputs)\<close> on rows of width \<open>width\<close>: a learned
  affine map without activation.
\<close>

definition linear :: "dense_variables \<Rightarrow> nat \<Rightarrow> real list list \<Rightarrow> nat \<Rightarrow> real list list" where
  "linear variables width inputs num_outputs =
     map (\<lambda>x. map (\<lambda>c. (\<Sum>k<width. x ! k * var_weights variables k c) + var_biases variables c)
                [0..<num_outputs])
         inputs"

subsection \<open>Loss and metrics\<close>

definition reduce_sum :: "real list \<Rightarrow> real" where
  "reduce_sum xs = sum_list xs"

definition reduce_mean :: "real list \<Rightarrow> real" where
  "reduce_mean xs = sum_list xs / real (length xs)"

definition to_float :: "bool \<Rightarrow> real" where
  "to_float b = (if b then 1 else 0)"

definition tf_argmax :: "real list \<Rightarrow> int" where
  "tf_argmax xs = int (length (takeWhile (\<lambda>x. x \<noteq> Max (set xs)) xs))"

definition sparse_softmax_cross_entropy_with_logits ::
    "int list \<Rightarrow> real list list \<Rightarrow> error + real list" where
  "sparse_softmax_cross_entropy_with_logits labels logits =
     (if length labels \<noteq> length logits then Inl ShapeError
      else if list_ex (\<lambda>(label, row). label < 0 \<or> int (length row) \<le> label) (zip labels logits)
        then Inl LabelOutOfRange
      else Inr (map2 (\<lambda>label row. - ln (softmax row ! nat label)) labels logits))"

text \<open>The function handed to \<open>tf.py_func\<close> (lines 259 to 263).\<close>

definition batch_labels_to_num_steps ::
    "encoder_decoder \<Rightarrow> int list list \<Rightarrow> nat list \<Rightarrow> real" where
  "batch_labels_to_num_steps encoder_decoder batch_labels lengths =
     (let num_steps =
            fold (\<lambda>(labels, len) num_steps.
                    num_steps + ed_labels_to_num_steps encoder_decoder (take len labels))
                 (zip batch_labels lengths) 0
      in real_of_int num_steps)"

text \<open>Lines 329 to 331: every summarised variable gets a scalar summary and a collection.\<close>

definition summarize_vars :: "(string \<times> real) list \<Rightarrow> graph \<Rightarrow> graph" where
  "summarize_vars vars_to_summarize g =
     fold (\<lambda>(var_name, var_value) g.
             add_to_collection var_name (Scalar var_value)
               (add_to_collection ''summaries'' (ScalarSummary var_name var_value) g))
          vars_to_summarize g"

text \<open>Lines 268 to 295: the metrics of train mode, under their names.\<close>

definition train_vars_to_summarize ::
    "real list \<Rightarrow> real list \<Rightarrow> real list \<Rightarrow> real list \<Rightarrow> real \<Rightarrow> (string \<times> real) list" where
  "train_vars_to_summarize softmax_cross_entropy correct_predictions event_positions
       no_event_positions num_steps =
     (let loss = reduce_mean softmax_cross_entropy;
          perplexity = exp loss;
          accuracy = reduce_mean correct_predictions;
          event_accuracy =
            reduce_sum (map2 (*) correct_predictions event_positions) /
            reduce_sum event_positions;
          no_event_accuracy =
            reduce_sum (map2 (*) correct_predictions no_event_positions) /
            reduce_sum no_event_positions;
          loss_per_step = reduce_sum softmax_cross_entropy / num_steps;
          perplexity_per_step = exp loss_per_step
      in [(''loss'', loss),
          (''metrics/perplexity'', perplexity),
          (''metrics/accuracy'', accuracy),
          (''metrics/event_accuracy'', event_accuracy),
          (''metrics/no_event_accuracy'', no_event_accuracy),
          (''metrics/loss_per_step'', loss_per_step),
          (''metrics/perplexity_per_step'', perplexity_per_step)])"

text \<open>\<open>'%d' % n\<close> for a natural number.\<close>

function decimal :: "nat \<Rightarrow> string" where
  "decimal n =
     (if n < 10 then [char_of (48 + n)]
      else decimal (n div 10) @ [char_of (48 + n mod 10)])"
  by pat_completeness auto
termination
  by (relation "measure id") auto

declare decimal.simps [simp del]

text \<open>Lines 298 to 300: one image summary per layer.\<close>

definition image_summaries :: "tensor3 list \<Rightarrow> nat \<Rightarrow> graph \<Rightarrow> graph" where
  "image_summaries self_similarity num_layers g =
     fold (\<lambda>layer g.
             add_to_collection ''summaries''
               (ImageSummary (''self_similarity_'' @ decimal (layer + 1))
                  (self_similarity ! layer) 1) g)
          [0..<num_layers] g"

text \<open>Lines 303 to 327: the metrics of eval mode and the values derived from them.\<close>

definition eval_metric_map ::
    "real list \<Rightarrow> int list \<Rightarrow> int list \<Rightarrow> real list \<Rightarrow> real list \<Rightarrow> real list \<Rightarrow> real
      \<Rightarrow> nat \<Rightarrow> (string \<times> metric) list" where
  "eval_metric_map softmax_cross_entropy labels_flat predictions_flat correct_predictions
       event_positions no_event_positions num_steps num_classes =
     [(''loss'', MetricMean softmax_cross_entropy None),
      (''metrics/accuracy'', MetricAccuracy labels_flat predictions_flat),
      (''metrics/per_class_accuracy'',
         MetricMeanPerClassAccuracy labels_flat predictions_flat num_classes),
      (''metrics/event_accuracy'', MetricRecall event_positions correct_predictions),
      (''metrics/no_event_accuracy'', MetricRecall no_event_positions correct_predictions),
      (''metrics/loss_per_step'',
         MetricMean softmax_cross_entropy
           (Some (num_steps / real (length softmax_cross_entropy))))]"

text \<open>Lines 243 to 331: the tail of the graph in train and eval mode.\<close>

definition train_eval_graph ::
    "string \<Rightarrow> hparams \<Rightarrow> encoder_decoder \<Rightarrow> 's tf_env \<Rightarrow> int list list \<Rightarrow> nat list
      \<Rightarrow> real list list \<Rightarrow> tensor3 list \<Rightarrow> graph \<Rightarrow> error + graph" where
  "train_eval_graph mode hparams encoder_decoder env labels lengths logits_flat
       self_similarity g =
     (let num_classes = ed_num_classes encoder_decoder;
          no_event_label = ed_default_event_label encoder_decoder;
          num_layers = length (hp_rnn_layer_sizes hparams);
          labels_flat = flatten_maybe_padded_sequences labels (Some lengths)
      in
      case sparse_softmax_cross_entropy_with_logits labels_flat logits_flat of
        Inl err \<Rightarrow> Inl err
      | Inr softmax_cross_entropy \<Rightarrow>
         (let predictions_flat = map tf_argmax logits_flat;
              correct_predictions =
                map2 (\<lambda>label prediction. to_float (label = prediction))
                  labels_flat predictions_flat;
              event_positions = map (\<lambda>label. to_float (label \<noteq> no_event_label)) labels_flat;
              no_event_positions = map (\<lambda>label. to_float (label = no_event_label)) labels_flat;
              num_steps = batch_labels_to_num_steps encoder_decoder labels lengths
          in
          if mode = ''train'' then
            (let vars_to_summarize =
                   train_vars_to_summarize softmax_cross_entropy correct_predictions
                     event_positions no_event_positions num_steps;
                 train_op = TrainOp (reduce_mean softmax_cross_entropy)
                              (hp_learning_rate hparams) (hp_clip_norm hparams)
             in Inr (summarize_vars vars_to_summarize
                      (image_summaries self_similarity num_layers
                        (add_to_collection ''train_op'' train_op g))))
          else if mode = ''eval'' then
            (let metric_map =
                   eval_metric_map softmax_cross_entropy labels_flat predictions_flat
                     correct_predictions event_positions no_event_positions num_steps
                     num_classes;
                 vars_to_summarize =
                   map (\<lambda>(name, m). (name, env_metric_value env m)) metric_map;
                 g' = fold (\<lambda>(name, m) g. add_to_collection ''eval_ops'' (UpdateOp m) g)
                        metric_map g;
                 vars_to_summarize' =
                   vars_to_summarize @
                   [(''metrics/perplexity'',
                       exp (env_metric_value env (MetricMean softmax_cross_entropy None))),
                    (''metrics/perplexity_per_step'',
                       exp (env_metric_value env
                              (MetricMean softmax_cross_entropy
                                 (Some (num_steps / real (length softmax_cross_entropy))))))]
             in Inr (summarize_vars vars_to_summarize' g'))
          else Inl UnboundLocalError))"

text \<open>
  Lines 334 to 337: the softmax of generate mode. \<open>tf.fill([num_classes], temperature)\<close>
  is divided into every row of the logits; the reshape to
  \<open>[batch_size, -1, num_classes]\<close> needs a number of rows that \<open>batch_size\<close> divides.
\<close>

definition tf_fill :: "nat \<Rightarrow> real \<Rightarrow> real list" where
  "tf_fill n v = replicate n v"

definition tf_div :: "real list list \<Rightarrow> real list \<Rightarrow> real list list" where
  "tf_div rows ys = map (\<lambda>row. map2 (/) row ys) rows"

definition reshape_batch :: "nat \<Rightarrow> nat \<Rightarrow> real list list \<Rightarrow> error + tensor3" where
  "reshape_batch batch_size num_classes rows =
     (if batch_size = 0 \<or> num_classes = 0 \<or> length rows mod batch_size \<noteq> 0 then Inl ShapeError
      else
        (let steps = length rows div batch_size
         in Inr \<lparr>dim0 = batch_size, dim1 = steps, dim2 = num_classes,
                  vals = map (\<lambda>b. take steps (drop (b * steps) rows)) [0..<batch_size]\<rparr>))"

definition generate_softmax :: "nat \<Rightarrow> nat \<Rightarrow> real \<Rightarrow> real list list \<Rightarrow> error + tensor3" where
  "generate_softmax batch_size num_classes temperature logits_flat =
     (let softmax_flat = map softmax (tf_div logits_flat (tf_fill num_classes temperature))
      in reshape_batch batch_size num_classes softmax_flat)"

text \<open>Lines 333 to 351: the tail of the graph in generate mode.\<close>

definition generate_graph ::
    "hparams \<Rightarrow> nat \<Rightarrow> 's tf_env \<Rightarrow> tensor3 \<Rightarrow> tensor3 list \<Rightarrow> real list list
      \<Rightarrow> 's layer_stack \<Rightarrow> graph \<Rightarrow> error + graph" where
  "generate_graph hparams num_classes env inputs past_targets logits_flat st g =
     (let temperature = env_temperature env;
          num_layers = length (hp_rnn_layer_sizes hparams)
      in
      case generate_softmax (hp_batch_size hparams) num_classes temperature logits_flat of
        Inl err \<Rightarrow> Inl err
      | Inr softmax_out \<Rightarrow>
          Inr (fold (\<lambda>layer g.
                      fold (\<lambda>state g. add_to_collection ''final_state'' (StateTensor state) g)
                        (env_nest_flatten env (ls_final_state st ! layer))
                        (fold (\<lambda>state g.
                                 add_to_collection ''initial_state'' (StateTensor state) g)
                           (env_nest_flatten env (ls_initial_state st ! layer))
                           (add_to_collection ''past_targets'' (Tensor (past_targets ! layer))
                             (add_to_collection ''targets'' (Tensor (ls_targets st ! layer)) g))))
                 [0..<num_layers]
                 (add_to_collection ''softmax'' (Tensor softmax_out)
                   (add_to_collection ''temperature'' (Scalar temperature)
                     (add_to_collection ''inputs'' (Tensor inputs) g)))))"

subsection \<open>The graph\<close>

text \<open>
  build_graph, with the graph it returns described by the collections it registers and
  the values these take for the given collaborators. An empty list of layers leaves
  \<open>outputs\<close> unassigned when it is read. In train and eval mode the labels and lengths
  are those of the batch; the branch for missing ones is not reached.
\<close>

definition build_graph ::
    "string \<Rightarrow> config \<Rightarrow> string list option \<Rightarrow> 's tf_env \<Rightarrow> error + graph" where
  "build_graph mode config sequence_example_file_paths env =
     (if mode \<notin> set [''train'', ''eval'', ''generate''] then
        Inl (ValueError
          (''The mode parameter must be 'train', 'eval', or 'generate'. The mode parameter was: ''
             @ mode))
      else
        (let hparams = cfg_hparams config;
             encoder_decoder = cfg_encoder_decoder config;
             input_size = ed_input_size encoder_decoder;
             num_classes = ed_num_classes encoder_decoder;
             num_layers = length (hp_rnn_layer_sizes hparams);
             graph = empty_graph
         in
         case graph_inputs mode hparams input_size sequence_example_file_paths env of
           Inl err \<Rightarrow> Inl err
         | Inr (inputs, labels, lengths, past_targets) \<Rightarrow>
        (case rnn_layers env hparams lengths past_targets [0..<num_layers]
                \<lparr>ls_targets = [], ls_initial_state = [], ls_final_state = [],
                 ls_self_similarity = [], ls_layer_inputs = inputs, ls_outputs = None\<rparr> of
           Inl err \<Rightarrow> Inl err
         | Inr st \<Rightarrow>
        (case ls_outputs st of
           None \<Rightarrow> Inl UnboundLocalError
         | Some outputs \<Rightarrow>
            (let outputs_flat = flatten_maybe_padded_sequences (vals outputs) lengths;
                 logits_flat = linear (env_linear env) (dim2 outputs) outputs_flat num_classes
             in
             if mode = ''train'' \<or> mode = ''eval'' then
               (case (labels, lengths) of
                  (Some labels', Some lengths') \<Rightarrow>
                    train_eval_graph mode hparams encoder_decoder env labels' lengths'
                      logits_flat (ls_self_similarity st) graph
                | _ \<Rightarrow> Inl UnboundLocalError)
             else if mode = ''generate'' then
               generate_graph hparams num_classes env inputs past_targets logits_flat st graph
             else Inr graph)))))"

section \<open>Concrete inputs\<close>

text \<open>Variables that are all zero, and small tensors, for the concrete instances below.\<close>

definition zero_variables :: dense_variables where
  "zero_variables = \<lparr>var_weights = (\<lambda>_ _. 0), var_biases = (\<lambda>_. 0)\<rparr>"

definition example_inputs :: tensor3 where
  "example_inputs =
     \<lparr>dim0 = 2, dim1 = 3, dim2 = 4,
      vals = [[[1, 2, 3, 4], [5, 6, 7, 8], [9, 10, 11, 12]],
              [[0, 0, 0, 0], [2, 2, 2, 2], [4, 4, 4, 4]]]\<rparr>"

definition example_past_inputs :: tensor3 where
  "example_past_inputs =
     \<lparr>dim0 = 2, dim1 = 1, dim2 = 4, vals = [[[1, 1, 1, 1]], [[3, 3, 3, 3]]]\<rparr>"

definition example_env :: "unit tf_env" where
  "example_env =
     \<lparr>env_get_padded_batch = (\<lambda>_ _ _ _. (example_inputs, [[0, 1, 0], [1, 0, 1]], [3, 2])),
      env_zero_state = (\<lambda>_ _. ()),
      env_dynamic_rnn = (\<lambda>_ _ layer_inputs _ state. (layer_inputs, state)),
      env_conv = (\<lambda>_. zero_variables),
      env_conv_1 = (\<lambda>_. zero_variables),
      env_linear = zero_variables,
      env_inputs = example_inputs,
      env_past_targets = (\<lambda>_. example_past_inputs),
      env_temperature = 1,
      env_metric_value = (\<lambda>_. 0),
      env_nest_flatten = (\<lambda>_. [])\<rparr>"

definition example_encoder_decoder :: encoder_decoder where
  "example_encoder_decoder =
     \<lparr>ed_input_size = 4, ed_num_classes = 2, ed_default_event_label = 0,
      ed_labels_to_num_steps = (\<lambda>labels. 2 * int (length labels))\<rparr>"

definition example_hparams :: hparams where
  "example_hparams =
     \<lparr>hp_batch_size = 2, hp_rnn_layer_sizes = [[4]], hp_embedding_sizes = [2],
      hp_learning_rate = 1 / 1000, hp_clip_norm = 5\<rparr>"

definition example_outputs :: tensor3 where
  "example_outputs =
     \<lparr>dim0 = 2, dim1 = 3, dim2 = 8,
      vals = [[[1, 2, 3, 4, 0, 0, 0, 0], [5, 6, 7, 8, 5, 6, 7, 8], [9, 10, 11, 12, 7, 8, 9, 10]],
              [[0, 0, 0, 0, 0, 0, 0, 0], [2, 2, 2, 2, 2, 2, 2, 2], [4, 4, 4, 4, 3, 3, 3, 3]]]\<rparr>"

definition example_stack :: "unit layer_stack" where
  "example_stack =
     \<lparr>ls_targets = [example_inputs], ls_initial_state = [()], ls_final_state = [()],
      ls_self_similarity = [tf_zeros 2 3 2], ls_layer_inputs = example_outputs,
      ls_outputs = Some example_outputs\<rparr>"

definition example_config :: config where
  "example_config =
     \<lparr>cfg_hparams = example_hparams, cfg_encoder_decoder = example_encoder_decoder\<rparr>"

section \<open>Shapes and entries of the basic operations\<close>

lemma slice_bound_le: "slice_bound k n \<le> n"
  unfolding slice_bound_def by auto

lemma slice_bound_nonneg: "0 \<le> k \<Longrightarrow> k \<le> int n \<Longrightarrow> slice_bound k n = nat k"
  by (simp add: slice_bound_def)

lemma length_tf_range: "length (tf_range a b) = nat (b - a)"
  by (simp add: tf_range_def)

lemma nth_tf_range: "i < nat (b - a) \<Longrightarrow> tf_range a b ! i = a + int i"
  by (simp add: tf_range_def)

lemma length_softmax: "length (softmax xs) = length xs"
  by (simp add: softmax_def)

lemma nth_softmax:
  "j < length xs \<Longrightarrow> softmax xs ! j = exp (xs ! j) / sum_list (map exp xs)"
  by (simp add: softmax_def)

lemma sum_list_exp_pos: "xs \<noteq> [] \<Longrightarrow> 0 < sum_list (map exp xs)"
  for xs :: "real list"
proof (induction xs)
  case Nil
  then show ?case by simp
next
  case (Cons x xs)
  show ?case
  proof (cases "xs = []")
    case True
    then show ?thesis by simp
  next
    case False
    have "0 < exp x" by simp
    moreover from False Cons.IH have "0 < sum_list (map exp xs)" by simp
    ultimately have "0 < exp x + sum_list (map exp xs)" by (rule add_pos_pos)
    then show ?thesis by simp
  qed
qed

lemma sum_list_softmax: "xs \<noteq> [] \<Longrightarrow> sum_list (softmax xs) = 1"
proof -
  assume ne: "xs \<noteq> []"
  have scale: "sum_list (map (\<lambda>x. exp x / c) ys) = sum_list (map exp ys) / c"
    for c :: real and ys
    by (induction ys) (simp_all add: add_divide_distrib)
  have "sum_list (softmax xs) = sum_list (map exp xs) / sum_list (map exp xs)"
    unfolding softmax_def by (rule scale)
  with sum_list_exp_pos [OF ne] show ?thesis by simp
qed

lemma wf_tensorD:
  assumes "wf_tensor t" and "b < dim0 t"
  shows "length (vals t ! b) = dim1 t"
    and "i < dim1 t \<Longrightarrow> length (vals t ! b ! i) = dim2 t"
  using assms unfolding wf_tensor_def by (auto simp: all_set_conv_all_nth)

lemma wf_tensor_length: "wf_tensor t \<Longrightarrow> length (vals t) = dim0 t"
  by (simp add: wf_tensor_def)


lemma length_steps:
  "length (tf_range (int t - int n + 1) (int t + 1)) = n"
  by (simp add: length_tf_range)

lemma wf_tensorI:
  assumes "length (vals t) = dim0 t"
    and "\<And>b. b < dim0 t \<Longrightarrow> length (vals t ! b) = dim1 t"
    and "\<And>b i. b < dim0 t \<Longrightarrow> i < dim1 t \<Longrightarrow> length (vals t ! b ! i) = dim2 t"
  shows "wf_tensor t"
  unfolding wf_tensor_def using assms by (auto simp: all_set_conv_all_nth)

lemma sum_list_nth_lessThan: "sum_list xs = (\<Sum>j<length xs. xs ! j)" for xs :: "real list"
  by (simp add: sum_list_sum_nth lessThan_atLeast0)

lemma steps_rows_empty:
  "zip (tf_range (int (dim2 ss) - int (dim1 ss) + 1) (int (dim2 ss) + 1))
       (vals (transpose_102 ss)) = [] \<longleftrightarrow> dim1 ss = 0"
proof -
  have "length (zip (tf_range (int (dim2 ss) - int (dim1 ss) + 1) (int (dim2 ss) + 1))
                    (vals (transpose_102 ss))) = dim1 ss"
    by (simp add: length_steps transpose_102_def)
  then show ?thesis by (metis length_0_conv)
qed

lemma attention_zero_steps:
  assumes "dim1 ss = 0"
  shows "attention ss = Inl EmptyTensorArray"
proof -
  have z: "zip (tf_range (int (dim2 ss) - int (dim1 ss) + 1) (int (dim2 ss) + 1))
             (vals (transpose_102 ss)) = []"
    using steps_rows_empty[of ss] assms by blast
  show ?thesis
    unfolding attention_def Let_def tf_map_fn_def z by simp
qed

lemma attention_Inr:
  assumes "0 < dim1 ss"
  shows "attention ss =
           Inr (transpose_102
                  \<lparr>dim0 = dim1 ss, dim1 = dim0 ss, dim2 = dim2 ss,
                   vals = map similarity_to_attention
                            (zip (tf_range (int (dim2 ss) - int (dim1 ss) + 1)
                                    (int (dim2 ss) + 1))
                               (vals (transpose_102 ss)))\<rparr>)"
proof -
  have nz: "(zip (tf_range (int (dim2 ss) - int (dim1 ss) + 1) (int (dim2 ss) + 1))
              (vals (transpose_102 ss)) = []) = False"
    using steps_rows_empty[of ss] assms by simp
  have d: "dim0 (transpose_102 ss) = dim1 ss" "dim1 (transpose_102 ss) = dim0 ss"
    "dim2 (transpose_102 ss) = dim2 ss"
    by (simp_all add: transpose_102_def)
  show ?thesis
    unfolding attention_def Let_def tf_map_fn_def nz d by simp
qed

lemma attention_InrD:
  assumes "attention ss = Inr a"
  shows "0 < dim1 ss"
    and "a = transpose_102
                  \<lparr>dim0 = dim1 ss, dim1 = dim0 ss, dim2 = dim2 ss,
                   vals = map similarity_to_attention
                            (zip (tf_range (int (dim2 ss) - int (dim1 ss) + 1)
                                    (int (dim2 ss) + 1))
                               (vals (transpose_102 ss)))\<rparr>"
proof -
  show p: "0 < dim1 ss"
  proof (rule ccontr)
    assume "\<not> 0 < dim1 ss"
    then have "attention ss = Inl EmptyTensorArray" by (simp add: attention_zero_steps)
    with assms show False by simp
  qed
  from attention_Inr[OF p] assms
  show "a = transpose_102
                  \<lparr>dim0 = dim1 ss, dim1 = dim0 ss, dim2 = dim2 ss,
                   vals = map similarity_to_attention
                            (zip (tf_range (int (dim2 ss) - int (dim1 ss) + 1)
                                    (int (dim2 ss) + 1))
                               (vals (transpose_102 ss)))\<rparr>"
    by simp
qed

lemma attention_dims:
  assumes "attention ss = Inr a"
  shows "dim0 a = dim0 ss" "dim1 a = dim1 ss" "dim2 a = dim2 ss"
  by (simp_all add: attention_InrD(2)[OF assms] transpose_102_def)

lemma attention_row:
  assumes a: "attention ss = Inr a"
    and wf: "wf_tensor ss" and b: "b < dim0 ss" and i: "i < dim1 ss"
  shows "vals a ! b ! i =
           softmax (slice_to (int (dim2 ss) - int (dim1 ss) + 1 + int i) (vals ss ! b ! i)) @
           zeros_like (slice_from (int (dim2 ss) - int (dim1 ss) + 1 + int i) (vals ss ! b ! i))"
proof -
  have len: "length (vals ss) = dim0 ss" using wf by (simp add: wf_tensor_def)
  show ?thesis
    using b i len
    by (simp add: attention_InrD(2)[OF a] transpose_102_def length_steps nth_tf_range
        similarity_to_attention_def)
qed

lemma length_attention:
  assumes "attention ss = Inr a"
  shows "length (vals a) = dim0 ss"
    and "b < dim0 ss \<Longrightarrow> length (vals a ! b) = dim1 ss"
  by (simp_all add: attention_InrD(2)[OF assms] transpose_102_def length_steps)

lemma attention_window:
  assumes a: "attention ss = Inr a"
    and wf: "wf_tensor ss" and b: "b < dim0 ss" and i: "i < dim1 ss"
  defines "n \<equiv> slice_bound (int (dim2 ss) - int (dim1 ss) + 1 + int i) (dim2 ss)"
  shows "length (vals a ! b ! i) = dim2 ss"
    and "\<And>j. j < n \<Longrightarrow> at3 a b i j = exp (at3 ss b i j) / (\<Sum>k<n. exp (at3 ss b i k))"
    and "\<And>j. n \<le> j \<Longrightarrow> j < dim2 ss \<Longrightarrow> at3 a b i j = 0"
    and "0 < n \<Longrightarrow> (\<Sum>j<n. at3 a b i j) = 1"
proof -
  let ?r = "vals ss ! b ! i"
  have lr: "length ?r = dim2 ss" by (rule wf_tensorD(2)[OF wf b i])
  have nle: "n \<le> dim2 ss" unfolding n_def by (rule slice_bound_le)
  have row: "vals a ! b ! i = softmax (take n ?r) @ zeros_like (drop n ?r)"
    by (simp add: attention_row[OF a wf b i] slice_to_def slice_from_def lr n_def)
  have lt: "length (take n ?r) = n" using nle lr by simp
  show "length (vals a ! b ! i) = dim2 ss"
    using nle lr by (simp add: row length_softmax zeros_like_def)
  have se: "sum_list (map exp (take n ?r)) = (\<Sum>k<n. exp (at3 ss b i k))"
  proof -
    have "sum_list (map exp (take n ?r)) = (\<Sum>k<length (map exp (take n ?r)). map exp (take n ?r) ! k)"
      by (rule sum_list_nth_lessThan)
    also have "\<dots> = (\<Sum>k<n. exp (at3 ss b i k))"
      using lt by (simp add: at3_def)
    finally show ?thesis .
  qed
  show w: "at3 a b i j = exp (at3 ss b i j) / (\<Sum>k<n. exp (at3 ss b i k))"
    if "j < n" for j
    using that lt by (simp add: at3_def row nth_append length_softmax nth_softmax se)
  show "at3 a b i j = 0" if "n \<le> j" "j < dim2 ss" for j
    using that lt lr by (simp add: at3_def row nth_append length_softmax zeros_like_def)
  show "(\<Sum>j<n. at3 a b i j) = 1" if "0 < n"
  proof -
    have ne: "take n ?r \<noteq> []" using that lt by auto
    have "(\<Sum>j<n. at3 a b i j) = (\<Sum>j<length (softmax (take n ?r)). softmax (take n ?r) ! j)"
      using lt by (simp add: at3_def row nth_append length_softmax)
    also have "\<dots> = sum_list (softmax (take n ?r))"
      by (rule sum_list_nth_lessThan[symmetric])
    also have "\<dots> = 1" by (rule sum_list_softmax[OF ne])
    finally show ?thesis .
  qed
qed

lemma wf_attention:
  assumes a: "attention ss = Inr a" and wf: "wf_tensor ss"
  shows "wf_tensor a"
  by (rule wf_tensorI)
     (simp_all add: attention_dims[OF a] length_attention[OF a] attention_window(1)[OF a wf])

lemma matmul_Inr:
  assumes "dim0 a = dim0 b" "dim2 a = dim1 b"
  shows "\<exists>out. matmul a b = Inr out \<and> dim0 out = dim0 a \<and> dim1 out = dim1 a \<and> dim2 out = dim2 b"
  using assms by (simp add: matmul_def)

lemma matmul_entries:
  assumes "matmul a b = Inr out" "wf_tensor a" "wf_tensor b"
  shows "wf_tensor out"
    and "\<And>n i d. n < dim0 a \<Longrightarrow> i < dim1 a \<Longrightarrow> d < dim2 b \<Longrightarrow>
           at3 out n i d = (\<Sum>j<dim1 b. at3 a n i j * at3 b n j d)"
proof -
  have d: "dim0 a = dim0 b" "dim2 a = dim1 b"
    and out: "out = \<lparr>dim0 = dim0 a, dim1 = dim1 a, dim2 = dim2 b,
                vals = map2 (\<lambda>ma mb.
                         map (\<lambda>row. map (\<lambda>d. \<Sum>j<dim1 b. row ! j * mb ! j ! d) [0..<dim2 b]) ma)
                       (vals a) (vals b)\<rparr>"
    using assms(1) by (auto simp: matmul_def split: if_splits)
  have la: "length (vals a) = dim0 a" and lb: "length (vals b) = dim0 a"
    using assms(2,3) d by (simp_all add: wf_tensor_def)
  show "wf_tensor out"
    by (rule wf_tensorI) (simp_all add: out la lb wf_tensorD(1)[OF assms(2)])
  show "at3 out n i d = (\<Sum>j<dim1 b. at3 a n i j * at3 b n j d)"
    if "n < dim0 a" "i < dim1 a" "d < dim2 b" for n i d
    using that la lb wf_tensorD(1)[OF assms(2) that(1)]
    by (simp add: out at3_def)
qed


section \<open>The causal window of similarity_weighted_attention\<close>

lemma similarity_weighted_attention_Inr:
  assumes wf: "wf_tensor self_similarity" and wft: "wf_tensor targets"
    and d0: "dim0 targets = dim0 self_similarity"
    and d1: "dim1 targets = dim2 self_similarity"
    and pos: "0 < dim1 self_similarity"
  shows "\<exists>a out.
           attention self_similarity = Inr a \<and> wf_tensor a \<and>
           similarity_weighted_attention targets self_similarity = Inr out \<and>
           matmul a targets = Inr out \<and> wf_tensor out \<and>
           dim0 out = dim0 self_similarity \<and> dim1 out = dim1 self_similarity \<and>
           dim2 out = dim2 targets"
proof -
  obtain a where a: "attention self_similarity = Inr a"
    using attention_Inr[OF pos] by blast
  note ad = attention_dims[OF a]
  have wfa: "wf_tensor a" by (rule wf_attention[OF a wf])
  obtain out where out: "matmul a targets = Inr out"
    and dims: "dim0 out = dim0 a" "dim1 out = dim1 a" "dim2 out = dim2 targets"
    using matmul_Inr[of a targets] d0 d1 ad by auto
  have wfo: "wf_tensor out" by (rule matmul_entries(1)[OF out wfa wft])
  have res: "similarity_weighted_attention targets self_similarity = Inr out"
    by (simp add: similarity_weighted_attention_def a out)
  from a wfa res out wfo dims ad show ?thesis by auto
qed

text \<open>
  Claim C1. Let the similarities have shape \<open>(B, Ti, Tt)\<close> with at least one input step
  and \<open>Ti \<le> Tt\<close>, let the targets have shape \<open>(B, Tt, D)\<close>, and let
  \<open>offset = Tt - Ti\<close>. Then similarity_weighted_attention succeeds, and in every row
  \<open>i\<close> of every batch element the attention weight of each column from
  \<open>offset + i + 1\<close> on is exactly 0, the weight of a column \<open>j\<close> below
  \<open>offset + i + 1\<close> is the softmax of the similarities of the columns below
  \<open>offset + i + 1\<close> alone, these weights sum to 1, and the output row is the sum over
  \<open>j\<close> of \<open>attention[b,i,j] * targets[b,j,:]\<close>. With no input step the map over
  the steps fails and nothing is returned.
\<close>

theorem similarity_weighted_attention_causal:
  assumes wf: "wf_tensor self_similarity" and wft: "wf_tensor targets"
    and d0: "dim0 targets = dim0 self_similarity"
    and d1: "dim1 targets = dim2 self_similarity"
    and pos: "0 < dim1 self_similarity"
    and le: "dim1 self_similarity \<le> dim2 self_similarity"
  shows "\<exists>attention_weights attention_output.
           attention self_similarity = Inr attention_weights \<and>
           similarity_weighted_attention targets self_similarity = Inr attention_output \<and>
           wf_tensor attention_output \<and>
           dim0 attention_output = dim0 self_similarity \<and>
           dim1 attention_output = dim1 self_similarity \<and>
           dim2 attention_output = dim2 targets \<and>
           (\<forall>b<dim0 self_similarity. \<forall>i<dim1 self_similarity.
              (\<forall>j. dim2 self_similarity - dim1 self_similarity + i + 1 \<le> j \<and> j < dim2 self_similarity
                 \<longrightarrow> at3 attention_weights b i j = 0) \<and>
              (\<forall>j<dim2 self_similarity - dim1 self_similarity + i + 1.
                 at3 attention_weights b i j =
                   exp (at3 self_similarity b i j) /
                   (\<Sum>k<dim2 self_similarity - dim1 self_similarity + i + 1.
                      exp (at3 self_similarity b i k))) \<and>
              (\<Sum>j<dim2 self_similarity - dim1 self_similarity + i + 1.
                 at3 attention_weights b i j) = 1 \<and>
              (\<forall>d<dim2 targets.
                 at3 attention_output b i d =
                   (\<Sum>j<dim2 self_similarity.
                      at3 attention_weights b i j * at3 targets b j d)))"
proof -
  from similarity_weighted_attention_Inr[OF wf wft d0 d1 pos]
  obtain a out where a: "attention self_similarity = Inr a" and wfa: "wf_tensor a"
    and res: "similarity_weighted_attention targets self_similarity = Inr out"
    and out: "matmul a targets = Inr out" and wfo: "wf_tensor out"
    and dims: "dim0 out = dim0 self_similarity" "dim1 out = dim1 self_similarity"
      "dim2 out = dim2 targets"
    by blast
  note ad = attention_dims[OF a]
  have rows: "(\<forall>j. dim2 self_similarity - dim1 self_similarity + i + 1 \<le> j \<and> j < dim2 self_similarity
                 \<longrightarrow> at3 a b i j = 0) \<and>
              (\<forall>j<dim2 self_similarity - dim1 self_similarity + i + 1.
                 at3 a b i j =
                   exp (at3 self_similarity b i j) /
                   (\<Sum>k<dim2 self_similarity - dim1 self_similarity + i + 1.
                      exp (at3 self_similarity b i k))) \<and>
              (\<Sum>j<dim2 self_similarity - dim1 self_similarity + i + 1. at3 a b i j) = 1 \<and>
              (\<forall>d<dim2 targets.
                 at3 out b i d = (\<Sum>j<dim2 self_similarity. at3 a b i j * at3 targets b j d))"
    if b: "b < dim0 self_similarity" and i: "i < dim1 self_similarity" for b i
  proof -
    have n: "slice_bound (int (dim2 self_similarity) - int (dim1 self_similarity) + 1 + int i)
               (dim2 self_similarity) = dim2 self_similarity - dim1 self_similarity + i + 1"
      using le i by (simp add: slice_bound_def)
    note w = attention_window[OF a wf b i, unfolded n]
    have "at3 out b i d = (\<Sum>j<dim2 self_similarity. at3 a b i j * at3 targets b j d)"
      if "d < dim2 targets" for d
      using matmul_entries(2)[OF out wfa wft, of b i d] b i that d1
      by (simp add: ad)
    with w(2,3,4) show ?thesis by simp
  qed
  from a res wfo dims rows show ?thesis by blast
qed

theorem similarity_weighted_attention_causal_witness:
  "wf_tensor \<lparr>dim0 = 1, dim1 = 2, dim2 = 2, vals = [[[0, 0], [0, 0]]]\<rparr> \<and>
   wf_tensor \<lparr>dim0 = 1, dim1 = 2, dim2 = 1, vals = [[[1], [2]]]\<rparr> \<and>
   0 < dim1 \<lparr>dim0 = 1, dim1 = 2, dim2 = 2, vals = [[[0, 0], [0, 0]]]\<rparr> \<and>
   (\<exists>a out.
      attention \<lparr>dim0 = 1, dim1 = 2, dim2 = 2, vals = [[[0, 0], [0, 0]]]\<rparr> = Inr a \<and>
      similarity_weighted_attention
        \<lparr>dim0 = 1, dim1 = 2, dim2 = 1, vals = [[[1], [2]]]\<rparr>
        \<lparr>dim0 = 1, dim1 = 2, dim2 = 2, vals = [[[0, 0], [0, 0]]]\<rparr> = Inr out \<and>
      dim2 out = 1 \<and>
      at3 a 0 0 0 = 1 \<and> at3 a 0 0 1 = 0 \<and> at3 a 0 1 0 = 1 / 2 \<and>
      at3 out 0 0 0 = 1)"
proof -
  let ?s = "\<lparr>dim0 = 1, dim1 = 2, dim2 = 2, vals = [[[0, 0], [0, 0]]]\<rparr>"
  let ?t = "\<lparr>dim0 = 1, dim1 = 2, dim2 = 1, vals = [[[1], [2]]]\<rparr>"
  have ws: "wf_tensor ?s" and wt: "wf_tensor ?t" by (simp_all add: wf_tensor_def)
  have p: "0 < dim1 ?s" by simp
  from similarity_weighted_attention_causal[OF ws wt _ _ p]
  obtain a out where o: "attention ?s = Inr a"
      "similarity_weighted_attention ?t ?s = Inr out" "dim2 out = 1"
    and r: "\<forall>b<dim0 ?s. \<forall>i<dim1 ?s.
              (\<forall>j. dim2 ?s - dim1 ?s + i + 1 \<le> j \<and> j < dim2 ?s \<longrightarrow> at3 a b i j = 0) \<and>
              (\<forall>j<dim2 ?s - dim1 ?s + i + 1.
                 at3 a b i j =
                   exp (at3 ?s b i j) / (\<Sum>k<dim2 ?s - dim1 ?s + i + 1. exp (at3 ?s b i k))) \<and>
              (\<forall>d<dim2 ?t.
                 at3 out b i d = (\<Sum>j<dim2 ?s. at3 a b i j * at3 ?t b j d))"
    by auto
  from r have r0: "(\<forall>j. dim2 ?s - dim1 ?s + 0 + 1 \<le> j \<and> j < dim2 ?s \<longrightarrow> at3 a 0 0 j = 0) \<and>
              (\<forall>j<dim2 ?s - dim1 ?s + 0 + 1.
                 at3 a 0 0 j =
                   exp (at3 ?s 0 0 j) / (\<Sum>k<dim2 ?s - dim1 ?s + 0 + 1. exp (at3 ?s 0 0 k))) \<and>
              (\<forall>d<dim2 ?t.
                 at3 out 0 0 d = (\<Sum>j<dim2 ?s. at3 a 0 0 j * at3 ?t 0 j d))"
    by simp
  from r have r1: "\<forall>j<dim2 ?s - dim1 ?s + 1 + 1.
                 at3 a 0 1 j =
                   exp (at3 ?s 0 1 j) / (\<Sum>k<dim2 ?s - dim1 ?s + 1 + 1. exp (at3 ?s 0 1 k))"
    by simp
  from r0 have m: "at3 a 0 0 1 = 0" by simp
  from r0 have "at3 a 0 0 0 =
      exp (at3 ?s 0 0 0) / (\<Sum>k<dim2 ?s - dim1 ?s + 0 + 1. exp (at3 ?s 0 0 k))"
    by simp
  then have w0: "at3 a 0 0 0 = 1" by (simp add: at3_def)
  from r1 have "at3 a 0 1 0 =
      exp (at3 ?s 0 1 0) / (\<Sum>k<dim2 ?s - dim1 ?s + 1 + 1. exp (at3 ?s 0 1 k))"
    by simp
  then have w1: "at3 a 0 1 0 = 1 / 2" by (simp add: at3_def)
  from r0 have "at3 out 0 0 0 = (\<Sum>j<dim2 ?s. at3 a 0 0 j * at3 ?t 0 j 0)" by simp
  then have o0: "at3 out 0 0 0 = 1"
    using m w0 by (simp add: numeral_2_eq_2) (simp add: at3_def)
  from ws wt p o w0 m w1 o0 show ?thesis by blast
qed

section \<open>More input steps than target steps\<close>

text \<open>
  Claim C3, as amended. similarity_weighted_attention holds no check that relates the
  number of input steps \<open>Ti\<close> to the number of target steps \<open>Tt\<close>. When \<open>Ti > Tt\<close>
  and the targets have the batch size and the \<open>Tt\<close> steps of the similarities, it raises
  no error and returns an output of shape \<open>(B, Ti, D)\<close>.
\<close>

theorem more_inputs_than_targets_no_error:
  assumes "wf_tensor self_similarity" and "wf_tensor targets"
    and "dim0 targets = dim0 self_similarity"
    and "dim1 targets = dim2 self_similarity"
    and "dim2 self_similarity < dim1 self_similarity"
  shows "\<exists>attention_output.
           similarity_weighted_attention targets self_similarity = Inr attention_output \<and>
           wf_tensor attention_output \<and>
           dim0 attention_output = dim0 self_similarity \<and>
           dim1 attention_output = dim1 self_similarity \<and>
           dim2 attention_output = dim2 targets"
proof -
  have pos: "0 < dim1 self_similarity" using assms(5) by simp
  from similarity_weighted_attention_Inr[OF assms(1,2,3,4) pos] show ?thesis by blast
qed

theorem more_inputs_than_targets_no_error_witness:
  "wf_tensor \<lparr>dim0 = 1, dim1 = 2, dim2 = 1, vals = [[[0], [0]]]\<rparr> \<and>
   wf_tensor \<lparr>dim0 = 1, dim1 = 1, dim2 = 1, vals = [[[5]]]\<rparr> \<and>
   dim2 \<lparr>dim0 = 1, dim1 = 2, dim2 = 1, vals = [[[0], [0]]]\<rparr>
     < dim1 \<lparr>dim0 = 1, dim1 = 2, dim2 = 1, vals = [[[0], [0]]]\<rparr> \<and>
   (\<exists>out. similarity_weighted_attention
            \<lparr>dim0 = 1, dim1 = 1, dim2 = 1, vals = [[[5]]]\<rparr>
            \<lparr>dim0 = 1, dim1 = 2, dim2 = 1, vals = [[[0], [0]]]\<rparr> = Inr out \<and>
          dim1 out = 2)"
proof -
  let ?s = "\<lparr>dim0 = 1, dim1 = 2, dim2 = 1, vals = [[[0], [0]]]\<rparr>"
  let ?t = "\<lparr>dim0 = 1, dim1 = 1, dim2 = 1, vals = [[[5]]]\<rparr>"
  have ws: "wf_tensor ?s" and wt: "wf_tensor ?t" by (simp_all add: wf_tensor_def)
  from more_inputs_than_targets_no_error[OF ws wt]
  have "\<exists>out. similarity_weighted_attention ?t ?s = Inr out \<and> dim1 out = 2"
    by auto
  with ws wt show ?thesis by simp
qed

text \<open>
  The claim as stated asks for an error whenever \<open>Ti > Tt\<close>. With two input steps and
  one target step the function returns a value: the first row has an empty window and is
  zero, the second row attends to the one target.
\<close>

theorem no_precondition_check_counterexample:
  "dim2 \<lparr>dim0 = 1, dim1 = 2, dim2 = 1, vals = [[[0], [0]]]\<rparr>
     < dim1 \<lparr>dim0 = 1, dim1 = 2, dim2 = 1, vals = [[[0], [0]]]\<rparr> \<and>
   similarity_weighted_attention
     \<lparr>dim0 = 1, dim1 = 1, dim2 = 1, vals = [[[5]]]\<rparr>
     \<lparr>dim0 = 1, dim1 = 2, dim2 = 1, vals = [[[0], [0]]]\<rparr>
   = Inr \<lparr>dim0 = 1, dim1 = 2, dim2 = 1, vals = [[[0], [5]]]\<rparr>"
  by (simp add: similarity_weighted_attention_def matmul_def attention_def tf_map_fn_def
      Let_def transpose_102_def tf_range_def similarity_to_attention_def slice_to_def
      slice_from_def slice_bound_def softmax_def zeros_like_def upt_rec)

section \<open>Rows with an empty window\<close>

text \<open>
  Claim C9, as amended. Let \<open>step = offset + i + 1\<close> be the slice bound of row \<open>i\<close>,
  with \<open>offset = Tt - Ti\<close>. When \<open>step = 0\<close>, as for the first row when there are no past
  inputs and \<open>Tt = Ti - 1\<close>, or when \<open>step \<le> - Tt\<close>, similarity_weighted_attention
  raises no error, every attention weight of the row is exactly 0, so the weights sum to
  0, and the output row is the zero vector of length \<open>D\<close>.
\<close>

theorem empty_window_row_is_zero:
  assumes wf: "wf_tensor self_similarity" and wft: "wf_tensor targets"
    and d0: "dim0 targets = dim0 self_similarity"
    and d1: "dim1 targets = dim2 self_similarity"
    and b: "b < dim0 self_similarity" and i: "i < dim1 self_similarity"
    and step: "int (dim2 self_similarity) - int (dim1 self_similarity) + int i + 1 = 0 \<or>
               int (dim2 self_similarity) - int (dim1 self_similarity) + int i + 1
                 \<le> - int (dim2 self_similarity)"
  shows "\<exists>attention_weights attention_output.
           attention self_similarity = Inr attention_weights \<and>
           similarity_weighted_attention targets self_similarity = Inr attention_output \<and>
           (\<forall>j<dim2 self_similarity. at3 attention_weights b i j = 0) \<and>
           (\<Sum>j<dim2 self_similarity. at3 attention_weights b i j) = 0 \<and>
           length (vals attention_output ! b ! i) = dim2 targets \<and>
           (\<forall>d<dim2 targets. at3 attention_output b i d = 0)"
proof -
  have pos: "0 < dim1 self_similarity" using i by simp
  from similarity_weighted_attention_Inr[OF wf wft d0 d1 pos]
  obtain a out where a: "attention self_similarity = Inr a" and wfa: "wf_tensor a"
    and res: "similarity_weighted_attention targets self_similarity = Inr out"
    and out: "matmul a targets = Inr out" and wfo: "wf_tensor out"
    and dims: "dim0 out = dim0 self_similarity" "dim1 out = dim1 self_similarity"
      "dim2 out = dim2 targets"
    by blast
  note ad = attention_dims[OF a]
  have n: "slice_bound (int (dim2 self_similarity) - int (dim1 self_similarity) + 1 + int i)
             (dim2 self_similarity) = 0"
    using step by (auto simp: slice_bound_def)
  have zero: "at3 a b i j = 0" if "j < dim2 self_similarity" for j
    using attention_window(3)[OF a wf b i, of j] that by (simp add: n)
  then have sum0: "(\<Sum>j<dim2 self_similarity. at3 a b i j) = 0"
    by simp
  have len: "length (vals out ! b ! i) = dim2 targets"
    using wf_tensorD(2)[OF wfo, of b i] b i dims by simp
  have outz: "at3 out b i d = 0" if "d < dim2 targets" for d
  proof -
    have "at3 out b i d = (\<Sum>j<dim1 targets. at3 a b i j * at3 targets b j d)"
      using matmul_entries(2)[OF out wfa wft, of b i d] b i that
      by (simp add: ad)
    also have "\<dots> = 0" using zero d1 by simp
    finally show ?thesis .
  qed
  from a res zero sum0 len outz show ?thesis by blast
qed

theorem empty_window_row_is_zero_witness:
  "wf_tensor \<lparr>dim0 = 1, dim1 = 2, dim2 = 1, vals = [[[0], [0]]]\<rparr> \<and>
   wf_tensor \<lparr>dim0 = 1, dim1 = 1, dim2 = 1, vals = [[[5]]]\<rparr> \<and>
   int (dim2 \<lparr>dim0 = 1, dim1 = 2, dim2 = 1, vals = [[[0], [0]]]\<rparr>)
     - int (dim1 \<lparr>dim0 = 1, dim1 = 2, dim2 = 1, vals = [[[0], [0]]]\<rparr>) + int 0 + 1 = 0 \<and>
   (\<exists>a out.
      attention \<lparr>dim0 = 1, dim1 = 2, dim2 = 1, vals = [[[0], [0]]]\<rparr> = Inr a \<and>
      similarity_weighted_attention
            \<lparr>dim0 = 1, dim1 = 1, dim2 = 1, vals = [[[5]]]\<rparr>
            \<lparr>dim0 = 1, dim1 = 2, dim2 = 1, vals = [[[0], [0]]]\<rparr> = Inr out \<and>
      at3 a 0 0 0 = 0 \<and>
      at3 out 0 0 0 = 0)"
proof -
  let ?s = "\<lparr>dim0 = 1, dim1 = 2, dim2 = 1, vals = [[[0], [0]]]\<rparr>"
  let ?t = "\<lparr>dim0 = 1, dim1 = 1, dim2 = 1, vals = [[[5]]]\<rparr>"
  have ws: "wf_tensor ?s" and wt: "wf_tensor ?t" by (simp_all add: wf_tensor_def)
  have st: "int (dim2 ?s) - int (dim1 ?s) + int 0 + 1 = 0 \<or>
            int (dim2 ?s) - int (dim1 ?s) + int 0 + 1 \<le> - int (dim2 ?s)"
    by simp
  from empty_window_row_is_zero[OF ws wt _ _ _ _ st]
  have "\<exists>a out. attention ?s = Inr a \<and> similarity_weighted_attention ?t ?s = Inr out \<and>
          at3 a 0 0 0 = 0 \<and> at3 out 0 0 0 = 0"
    by auto
  with ws wt show ?thesis by simp
qed

text \<open>
  For a negative \<open>step\<close> above \<open>- Tt\<close> the slice \<open>sim[:, :step]\<close> counts from the
  end and is not empty. With \<open>Tt = 2\<close> and \<open>Ti = 4\<close> the first row has \<open>step = -1\<close>, and
  its first column carries the weight 1.
\<close>

theorem empty_window_counterexample:
  "int (dim2 \<lparr>dim0 = 1, dim1 = 4, dim2 = 2, vals = [[[0, 0], [0, 0], [0, 0], [0, 0]]]\<rparr>)
     - int (dim1 \<lparr>dim0 = 1, dim1 = 4, dim2 = 2, vals = [[[0, 0], [0, 0], [0, 0], [0, 0]]]\<rparr>)
     + 0 + 1 \<le> 0 \<and>
   attention \<lparr>dim0 = 1, dim1 = 4, dim2 = 2, vals = [[[0, 0], [0, 0], [0, 0], [0, 0]]]\<rparr>
     = Inr \<lparr>dim0 = 1, dim1 = 4, dim2 = 2,
            vals = [[[1, 0], [0, 0], [1, 0], [1 / 2, 1 / 2]]]\<rparr>"
  by (simp add: attention_def tf_map_fn_def Let_def
      transpose_102_def tf_range_def similarity_to_attention_def slice_to_def slice_from_def
      slice_bound_def softmax_def zeros_like_def upt_rec)

section \<open>self_similarity_attention\<close>

lemma input_embeddings_Inr:
  assumes "dim2 inputs = input_size"
  shows "\<exists>emb. input_embeddings v inputs input_size embedding_size = Inr emb \<and>
           dim0 emb = dim0 inputs \<and> dim1 emb = dim1 inputs \<and> dim2 emb = embedding_size"
  using assms by (simp add: input_embeddings_def)

lemma input_embeddings_entries:
  assumes e: "input_embeddings v inputs input_size embedding_size = Inr emb"
    and wf: "wf_tensor inputs"
  shows "wf_tensor emb"
    and "\<And>b i e. b < dim0 inputs \<Longrightarrow> i < dim1 inputs \<Longrightarrow> e < embedding_size \<Longrightarrow>
           at3 emb b i e =
             relu ((\<Sum>k<input_size. at3 inputs b i k * var_weights v k e) + var_biases v e)"
proof -
  have emb: "emb = \<lparr>dim0 = dim0 inputs, dim1 = dim1 inputs, dim2 = embedding_size,
                vals = map (map (\<lambda>x.
                         map (\<lambda>e. relu ((\<Sum>k<input_size. x ! k * var_weights v k e)
                                         + var_biases v e))
                             [0..<embedding_size]))
                       (vals inputs)\<rparr>"
    using e by (auto simp: input_embeddings_def split: if_splits)
  have l: "length (vals inputs) = dim0 inputs" using wf by (simp add: wf_tensor_def)
  show "wf_tensor emb"
    by (rule wf_tensorI) (simp_all add: emb l wf_tensorD(1)[OF wf])
  show "at3 emb b i e =
          relu ((\<Sum>k<input_size. at3 inputs b i k * var_weights v k e) + var_biases v e)"
    if "b < dim0 inputs" "i < dim1 inputs" "e < embedding_size" for b i e
    using that l wf_tensorD(1)[OF wf that(1)] by (simp add: emb at3_def)
qed

lemma concat_axis1_Inr:
  assumes "dim0 a = dim0 b" "dim2 a = dim2 b"
  shows "\<exists>c. concat_axis1 a b = Inr c \<and> dim0 c = dim0 a \<and> dim1 c = dim1 a + dim1 b \<and>
           dim2 c = dim2 a \<and> vals c = map2 (@) (vals a) (vals b)"
  using assms by (simp add: concat_axis1_def)

lemma concat_axis1_wf:
  assumes c: "concat_axis1 a b = Inr c" and wa: "wf_tensor a" and wb: "wf_tensor b"
  shows "wf_tensor c"
    and "\<And>n. n < dim0 a \<Longrightarrow> vals c ! n = vals a ! n @ vals b ! n"
proof -
  have d: "dim0 a = dim0 b" "dim2 a = dim2 b"
    and cc: "c = \<lparr>dim0 = dim0 a, dim1 = dim1 a + dim1 b, dim2 = dim2 a,
                vals = map2 (@) (vals a) (vals b)\<rparr>"
    using c by (auto simp: concat_axis1_def split: if_splits)
  have la: "length (vals a) = dim0 a" and lb: "length (vals b) = dim0 a"
    using wa wb d by (simp_all add: wf_tensor_def)
  show nth: "vals c ! n = vals a ! n @ vals b ! n" if "n < dim0 a" for n
    using that la lb by (simp add: cc)
  show "wf_tensor c"
  proof (rule wf_tensorI)
    show "length (vals c) = dim0 c" by (simp add: cc la lb)
    show "length (vals c ! n) = dim1 c" if "n < dim0 c" for n
      using that nth[of n] wf_tensorD(1)[OF wa, of n] wf_tensorD(1)[OF wb, of n] d
      by (simp add: cc)
    show "length (vals c ! n ! i) = dim2 c" if "n < dim0 c" "i < dim1 c" for n i
    proof -
      have n: "n < dim0 a" "n < dim0 b" using that d by (simp_all add: cc)
      have la': "length (vals a ! n) = dim1 a" by (rule wf_tensorD(1)[OF wa n(1)])
      have lb': "length (vals b ! n) = dim1 b" by (rule wf_tensorD(1)[OF wb n(2)])
      show ?thesis
      proof (cases "i < dim1 a")
        case True
        then show ?thesis
          using nth[OF n(1)] la' wf_tensorD(2)[OF wa n(1) True]
          by (simp add: nth_append cc)
      next
        case False
        then have "i - dim1 a < dim1 b" using that(2) by (simp add: cc)
        from wf_tensorD(2)[OF wb n(2) this] False show ?thesis
          using nth[OF n(1)] la' d by (simp add: nth_append cc)
      qed
    qed
  qed
qed

lemma slice_axis1_to_wf:
  assumes "wf_tensor t"
  shows "wf_tensor (slice_axis1_to k t)"
proof (rule wf_tensorI)
  show "length (vals (slice_axis1_to k t)) = dim0 (slice_axis1_to k t)"
    using assms by (simp add: slice_axis1_to_def wf_tensor_def)
  show "length (vals (slice_axis1_to k t) ! b) = dim1 (slice_axis1_to k t)"
    if "b < dim0 (slice_axis1_to k t)" for b
    using that wf_tensorD(1)[OF assms, of b] wf_tensor_length[OF assms] slice_bound_le[of k "dim1 t"]
    by (simp add: slice_axis1_to_def)
  show "length (vals (slice_axis1_to k t) ! b ! i) = dim2 (slice_axis1_to k t)"
    if "b < dim0 (slice_axis1_to k t)" "i < dim1 (slice_axis1_to k t)" for b i
    using that wf_tensorD(2)[OF assms, of b i] wf_tensor_length[OF assms]
      slice_bound_le[of k "dim1 t"]
    by (simp add: slice_axis1_to_def)
qed

lemma slice_axis1_from_wf:
  assumes "wf_tensor t"
  shows "wf_tensor (slice_axis1_from k t)"
proof (rule wf_tensorI)
  show "length (vals (slice_axis1_from k t)) = dim0 (slice_axis1_from k t)"
    using assms by (simp add: slice_axis1_from_def wf_tensor_def)
  show "length (vals (slice_axis1_from k t) ! b) = dim1 (slice_axis1_from k t)"
    if "b < dim0 (slice_axis1_from k t)" for b
    using that wf_tensorD(1)[OF assms, of b] wf_tensor_length[OF assms]
    by (simp add: slice_axis1_from_def)
  show "length (vals (slice_axis1_from k t) ! b ! i) = dim2 (slice_axis1_from k t)"
    if "b < dim0 (slice_axis1_from k t)" "i < dim1 (slice_axis1_from k t)" for b i
    using that wf_tensorD(2)[OF assms, of b "slice_bound k (dim1 t) + i"]
      wf_tensorD(1)[OF assms, of b] wf_tensor_length[OF assms]
    by (simp add: slice_axis1_from_def)
qed

lemma slice_drop_last:
  assumes "wf_tensor t" "b < dim0 t"
  shows "dim1 (slice_axis1_to (- 1) t) = dim1 t - 1"
    and "vals (slice_axis1_to (- 1) t) ! b = butlast (vals t ! b)"
proof -
  have n: "slice_bound (- 1) (dim1 t) = dim1 t - 1"
    by (auto simp: slice_bound_def)
  show "dim1 (slice_axis1_to (- 1) t) = dim1 t - 1"
    by (simp add: slice_axis1_to_def n)
  show "vals (slice_axis1_to (- 1) t) ! b = butlast (vals t ! b)"
    using assms(2) wf_tensor_length[OF assms(1)] wf_tensorD(1)[OF assms]
    by (simp add: slice_axis1_to_def n butlast_conv_take)
qed

lemma slice_drop_first:
  assumes "wf_tensor t" "b < dim0 t"
  shows "dim1 (slice_axis1_from 1 t) = dim1 t - 1"
    and "vals (slice_axis1_from 1 t) ! b = tl (vals t ! b)"
proof -
  have n: "slice_bound 1 (dim1 t) = min 1 (dim1 t)"
    by (auto simp: slice_bound_def)
  show "dim1 (slice_axis1_from 1 t) = dim1 t - 1"
    by (simp add: slice_axis1_from_def n)
  show "vals (slice_axis1_from 1 t) ! b = tl (vals t ! b)"
    using assms(2) wf_tensor_length[OF assms(1)] wf_tensorD(1)[OF assms]
    by (cases "vals t ! b") (simp_all add: slice_axis1_from_def n drop_Suc)
qed

lemma slice_dims:
  "dim0 (slice_axis1_to k t) = dim0 t" "dim2 (slice_axis1_to k t) = dim2 t"
  "dim0 (slice_axis1_from k t) = dim0 t" "dim2 (slice_axis1_from k t) = dim2 t"
  by (simp_all add: slice_axis1_to_def slice_axis1_from_def)

lemma slice_dim1:
  "dim1 (slice_axis1_to (- 1) t) = dim1 t - 1" "dim1 (slice_axis1_from 1 t) = dim1 t - 1"
  by (auto simp: slice_axis1_to_def slice_axis1_from_def slice_bound_def)

lemma matmul_transpose_b_Inr:
  assumes "dim0 a = dim0 b" "dim2 a = dim2 b"
  shows "\<exists>out. matmul_transpose_b a b = Inr out \<and> dim0 out = dim0 a \<and> dim1 out = dim1 a \<and>
           dim2 out = dim1 b"
  using assms by (simp add: matmul_transpose_b_def)

lemma matmul_transpose_b_entries:
  assumes "matmul_transpose_b a b = Inr out" "wf_tensor a" "wf_tensor b"
  shows "wf_tensor out"
    and "\<And>n i j. n < dim0 a \<Longrightarrow> i < dim1 a \<Longrightarrow> j < dim1 b \<Longrightarrow>
           at3 out n i j = (\<Sum>e<dim2 b. at3 a n i e * at3 b n j e)"
proof -
  have d: "dim0 a = dim0 b" "dim2 a = dim2 b"
    and out: "out = \<lparr>dim0 = dim0 a, dim1 = dim1 a, dim2 = dim1 b,
                vals = map2 (\<lambda>ma mb.
                         map (\<lambda>row. map (\<lambda>j. \<Sum>e<dim2 b. row ! e * mb ! j ! e) [0..<dim1 b]) ma)
                       (vals a) (vals b)\<rparr>"
    using assms(1) by (auto simp: matmul_transpose_b_def split: if_splits)
  have la: "length (vals a) = dim0 a" and lb: "length (vals b) = dim0 a"
    using assms(2,3) d by (simp_all add: wf_tensor_def)
  show "wf_tensor out"
    by (rule wf_tensorI) (simp_all add: out la lb wf_tensorD(1)[OF assms(2)])
  show "at3 out n i j = (\<Sum>e<dim2 b. at3 a n i e * at3 b n j e)"
    if "n < dim0 a" "i < dim1 a" "j < dim1 b" for n i j
    using that la lb wf_tensorD(1)[OF assms(2) that(1)]
    by (simp add: out at3_def)
qed

lemma self_similarity_attention_shapes:
  assumes wfi: "wf_tensor inputs" and wfp: "wf_tensor past_inputs"
    and b0: "dim0 past_inputs = dim0 inputs"
    and b2: "dim2 past_inputs = dim2 inputs"
    and isz: "dim2 inputs = input_size"
    and pos: "0 < dim1 inputs"
  shows "\<exists>attention_outputs self_similarity.
           self_similarity_attention conv conv_1 inputs past_inputs batch_size input_size
             embedding_size = Inr (attention_outputs, self_similarity) \<and>
           wf_tensor self_similarity \<and> wf_tensor attention_outputs \<and>
           dim0 self_similarity = dim0 inputs \<and>
           dim1 self_similarity = dim1 inputs \<and>
           dim2 self_similarity = dim1 past_inputs + dim1 inputs - 1 \<and>
           dim0 attention_outputs = dim0 inputs \<and>
           dim1 attention_outputs = dim1 inputs \<and>
           dim2 attention_outputs = dim2 inputs"
proof -
  obtain emb where emb: "input_embeddings conv inputs input_size embedding_size = Inr emb"
    and embd: "dim0 emb = dim0 inputs" "dim1 emb = dim1 inputs" "dim2 emb = embedding_size"
    using input_embeddings_Inr[OF isz] by blast
  have wfe: "wf_tensor emb" by (rule input_embeddings_entries(1)[OF emb wfi])
  obtain ta where ta: "concat_axis1 past_inputs inputs = Inr ta"
    and tad: "dim0 ta = dim0 inputs" "dim1 ta = dim1 past_inputs + dim1 inputs"
      "dim2 ta = dim2 inputs"
    using concat_axis1_Inr[OF b0 b2] b0 b2 by auto
  have wfta: "wf_tensor ta" by (rule concat_axis1_wf(1)[OF ta wfp wfi])
  let ?dl = "slice_axis1_to (- 1) ta" and ?df = "slice_axis1_from 1 ta"
  have wfdl: "wf_tensor ?dl" by (rule slice_axis1_to_wf[OF wfta])
  have wfdf: "wf_tensor ?df" by (rule slice_axis1_from_wf[OF wfta])
  have "dim2 ?dl = input_size" using isz tad by (simp add: slice_dims)
  from input_embeddings_Inr[OF this]
  obtain temb where temb: "input_embeddings conv_1 ?dl input_size embedding_size = Inr temb"
    and tembd: "dim0 temb = dim0 inputs" "dim1 temb = dim1 past_inputs + dim1 inputs - 1"
      "dim2 temb = embedding_size"
    using tad by (auto simp: slice_dims slice_dim1)
  have wfte: "wf_tensor temb" by (rule input_embeddings_entries(1)[OF temb wfdl])
  have "dim0 emb = dim0 temb" "dim2 emb = dim2 temb" using embd tembd by simp_all
  from matmul_transpose_b_Inr[OF this]
  obtain ss where ss: "matmul_transpose_b emb temb = Inr ss"
    and ssd: "dim0 ss = dim0 inputs" "dim1 ss = dim1 inputs"
      "dim2 ss = dim1 past_inputs + dim1 inputs - 1"
    using embd tembd by auto
  have wfss: "wf_tensor ss" by (rule matmul_transpose_b_entries(1)[OF ss wfe wfte])
  have pss: "0 < dim1 ss" using ssd pos by simp
  have "dim0 ?df = dim0 ss" "dim1 ?df = dim2 ss"
    using ssd tad by (simp_all add: slice_dims slice_dim1)
  from similarity_weighted_attention_Inr[OF wfss wfdf this pss]
  obtain out where out: "similarity_weighted_attention ?df ss = Inr out"
    and wfo: "wf_tensor out"
    and outd: "dim0 out = dim0 inputs" "dim1 out = dim1 inputs" "dim2 out = dim2 inputs"
    using ssd tad by (auto simp: slice_dims)
  have res: "self_similarity_attention conv conv_1 inputs past_inputs batch_size input_size
               embedding_size = Inr (out, ss)"
    by (simp add: self_similarity_attention_def emb ta temb ss out)
  from res wfss wfo ssd outd show ?thesis by blast
qed

lemma sum_exp_pos: "0 < n \<Longrightarrow> 0 < (\<Sum>k<n. exp (f k :: real))" for n :: nat
  by (rule sum_pos) auto

lemmas eval_defs = self_similarity_attention_def input_embeddings_def concat_axis1_def
  slice_axis1_to_def slice_axis1_from_def matmul_transpose_b_def
  similarity_weighted_attention_def matmul_def attention_def tf_map_fn_def Let_def
  transpose_102_def tf_range_def similarity_to_attention_def slice_to_def slice_from_def
  slice_bound_def softmax_def zeros_like_def relu_def tf_zeros_def

lemma self_similarity_attention_zero_steps:
  assumes wfi: "wf_tensor inputs" and wfp: "wf_tensor past_inputs"
    and b0: "dim0 past_inputs = dim0 inputs"
    and b2: "dim2 past_inputs = dim2 inputs"
    and isz: "dim2 inputs = input_size"
    and zero: "dim1 inputs = 0"
  shows "self_similarity_attention conv conv_1 inputs past_inputs batch_size input_size
           embedding_size = Inl EmptyTensorArray"
proof -
  obtain emb where emb: "input_embeddings conv inputs input_size embedding_size = Inr emb"
    and embd: "dim0 emb = dim0 inputs" "dim1 emb = dim1 inputs" "dim2 emb = embedding_size"
    using input_embeddings_Inr[OF isz] by blast
  obtain ta where ta: "concat_axis1 past_inputs inputs = Inr ta"
    and tad: "dim0 ta = dim0 inputs" "dim2 ta = dim2 inputs"
    using concat_axis1_Inr[OF b0 b2] b0 b2 by auto
  have "dim2 (slice_axis1_to (- 1) ta) = input_size" using isz tad by (simp add: slice_dims)
  from input_embeddings_Inr[OF this]
  obtain temb where temb: "input_embeddings conv_1 (slice_axis1_to (- 1) ta) input_size
                             embedding_size = Inr temb"
    and tembd: "dim0 temb = dim0 inputs" "dim2 temb = embedding_size"
    using tad by (auto simp: slice_dims)
  have "dim0 emb = dim0 temb" "dim2 emb = dim2 temb" using embd tembd by simp_all
  from matmul_transpose_b_Inr[OF this]
  obtain ss where ss: "matmul_transpose_b emb temb = Inr ss" and ssd: "dim1 ss = 0"
    using embd zero by auto
  show ?thesis
    by (simp add: self_similarity_attention_def emb ta temb ss
        similarity_weighted_attention_def attention_zero_steps[OF ssd])
qed

text \<open>
  Claim C4. For inputs of shape \<open>(B, T, D)\<close> with at least one step and past inputs of
  shape \<open>(B, Tp, D)\<close>, where \<open>Tp\<close> may be 0, self_similarity_attention succeeds. It
  forms \<open>targets_all\<close> as the past inputs followed by the inputs along the time axis,
  embeds the inputs, embeds \<open>targets_all\<close> without its last step, and takes as
  self_similarity the batched product of the embeddings with the transposed target
  embeddings, of shape \<open>(B, T, Tp + T - 1)\<close>. It calls similarity_weighted_attention on
  \<open>targets_all\<close> without its first step and returns the attention output, of shape
  \<open>(B, T, D)\<close>, with self_similarity. With no input step the map over the steps fails,
  as the lemma before says.
\<close>

theorem self_similarity_attention_structure:
  assumes wfi: "wf_tensor inputs" and wfp: "wf_tensor past_inputs"
    and b0: "dim0 past_inputs = dim0 inputs"
    and b2: "dim2 past_inputs = dim2 inputs"
    and isz: "dim2 inputs = input_size"
    and pos: "0 < dim1 inputs"
  shows "\<exists>targets_all embeddings target_embeddings self_similarity attention_outputs.
           concat_axis1 past_inputs inputs = Inr targets_all \<and>
           dim0 targets_all = dim0 inputs \<and>
           dim1 targets_all = dim1 past_inputs + dim1 inputs \<and>
           dim2 targets_all = dim2 inputs \<and>
           (\<forall>b<dim0 inputs. vals targets_all ! b = vals past_inputs ! b @ vals inputs ! b) \<and>
           input_embeddings conv inputs input_size embedding_size = Inr embeddings \<and>
           input_embeddings conv_1 (slice_axis1_to (- 1) targets_all) input_size embedding_size
             = Inr target_embeddings \<and>
           (\<forall>b<dim0 inputs.
              vals (slice_axis1_to (- 1) targets_all) ! b = butlast (vals targets_all ! b)) \<and>
           wf_tensor self_similarity \<and>
           dim0 self_similarity = dim0 inputs \<and>
           dim1 self_similarity = dim1 inputs \<and>
           dim2 self_similarity = dim1 past_inputs + dim1 inputs - 1 \<and>
           (\<forall>b<dim0 inputs. \<forall>i<dim1 inputs. \<forall>j<dim1 past_inputs + dim1 inputs - 1.
              at3 self_similarity b i j =
                (\<Sum>e<embedding_size. at3 embeddings b i e * at3 target_embeddings b j e)) \<and>
           (\<forall>b<dim0 inputs.
              vals (slice_axis1_from 1 targets_all) ! b = tl (vals targets_all ! b)) \<and>
           similarity_weighted_attention (slice_axis1_from 1 targets_all) self_similarity
             = Inr attention_outputs \<and>
           dim0 attention_outputs = dim0 inputs \<and>
           dim1 attention_outputs = dim1 inputs \<and>
           dim2 attention_outputs = dim2 inputs \<and>
           self_similarity_attention conv conv_1 inputs past_inputs batch_size input_size
             embedding_size = Inr (attention_outputs, self_similarity)"
proof -
  obtain emb where emb: "input_embeddings conv inputs input_size embedding_size = Inr emb"
    and embd: "dim0 emb = dim0 inputs" "dim1 emb = dim1 inputs" "dim2 emb = embedding_size"
    using input_embeddings_Inr[OF isz] by blast
  have wfe: "wf_tensor emb" by (rule input_embeddings_entries(1)[OF emb wfi])
  obtain ta where ta: "concat_axis1 past_inputs inputs = Inr ta"
    and tad: "dim0 ta = dim0 inputs" "dim1 ta = dim1 past_inputs + dim1 inputs"
      "dim2 ta = dim2 inputs"
    using concat_axis1_Inr[OF b0 b2] b0 b2 by auto
  have wfta: "wf_tensor ta" by (rule concat_axis1_wf(1)[OF ta wfp wfi])
  have tav: "vals ta ! b = vals past_inputs ! b @ vals inputs ! b" if "b < dim0 inputs" for b
    using concat_axis1_wf(2)[OF ta wfp wfi, of b] that b0 by simp
  let ?dl = "slice_axis1_to (- 1) ta" and ?df = "slice_axis1_from 1 ta"
  have wfdl: "wf_tensor ?dl" by (rule slice_axis1_to_wf[OF wfta])
  have wfdf: "wf_tensor ?df" by (rule slice_axis1_from_wf[OF wfta])
  have dlv: "vals ?dl ! b = butlast (vals ta ! b)" if "b < dim0 inputs" for b
    using slice_drop_last(2)[OF wfta, of b] that tad by simp
  have dfv: "vals ?df ! b = tl (vals ta ! b)" if "b < dim0 inputs" for b
    using slice_drop_first(2)[OF wfta, of b] that tad by simp
  have "dim2 ?dl = input_size" using isz tad by (simp add: slice_dims)
  from input_embeddings_Inr[OF this]
  obtain temb where temb: "input_embeddings conv_1 ?dl input_size embedding_size = Inr temb"
    and tembd: "dim0 temb = dim0 inputs" "dim1 temb = dim1 past_inputs + dim1 inputs - 1"
      "dim2 temb = embedding_size"
    using tad by (auto simp: slice_dims slice_dim1)
  have wfte: "wf_tensor temb" by (rule input_embeddings_entries(1)[OF temb wfdl])
  have "dim0 emb = dim0 temb" "dim2 emb = dim2 temb" using embd tembd by simp_all
  from matmul_transpose_b_Inr[OF this]
  obtain ss where ss: "matmul_transpose_b emb temb = Inr ss"
    and ssd: "dim0 ss = dim0 inputs" "dim1 ss = dim1 inputs"
      "dim2 ss = dim1 past_inputs + dim1 inputs - 1"
    using embd tembd by auto
  have wfss: "wf_tensor ss" by (rule matmul_transpose_b_entries(1)[OF ss wfe wfte])
  have sse: "at3 ss b i j = (\<Sum>e<embedding_size. at3 emb b i e * at3 temb b j e)"
    if "b < dim0 inputs" "i < dim1 inputs" "j < dim1 past_inputs + dim1 inputs - 1" for b i j
    using matmul_transpose_b_entries(2)[OF ss wfe wfte, of b i j] that embd tembd by simp
  have pss: "0 < dim1 ss" using ssd pos by simp
  have "dim0 ?df = dim0 ss" "dim1 ?df = dim2 ss"
    using ssd tad by (simp_all add: slice_dims slice_dim1)
  from similarity_weighted_attention_Inr[OF wfss wfdf this pss]
  obtain out where out: "similarity_weighted_attention ?df ss = Inr out"
    and outd: "dim0 out = dim0 inputs" "dim1 out = dim1 inputs" "dim2 out = dim2 inputs"
    using ssd tad by (auto simp: slice_dims)
  have res: "self_similarity_attention conv conv_1 inputs past_inputs batch_size input_size
               embedding_size = Inr (out, ss)"
    by (simp add: self_similarity_attention_def emb ta temb ss out)
  from ta tad tav emb temb dlv wfss ssd sse dfv out outd res show ?thesis by blast
qed

theorem self_similarity_attention_structure_witness:
  "wf_tensor example_inputs \<and> wf_tensor example_past_inputs \<and>
   dim0 example_past_inputs = dim0 example_inputs \<and>
   dim2 example_past_inputs = dim2 example_inputs \<and>
   dim2 example_inputs = 4 \<and>
   0 < dim1 example_inputs \<and>
   (\<exists>attention_outputs self_similarity.
      self_similarity_attention zero_variables zero_variables example_inputs
        example_past_inputs 2 4 2 = Inr (attention_outputs, self_similarity) \<and>
      dim0 self_similarity = 2 \<and> dim1 self_similarity = 3 \<and> dim2 self_similarity = 3)"
proof -
  have wi: "wf_tensor example_inputs" and wp: "wf_tensor example_past_inputs"
    by (simp_all add: wf_tensor_def example_inputs_def example_past_inputs_def)
  have d: "dim0 example_past_inputs = dim0 example_inputs"
    "dim2 example_past_inputs = dim2 example_inputs" "dim2 example_inputs = 4"
    by (simp_all add: example_inputs_def example_past_inputs_def)
  have e: "dim0 example_inputs = 2" "dim1 example_inputs = 3" "dim1 example_past_inputs = 1"
    by (simp_all add: example_inputs_def example_past_inputs_def)
  have p: "0 < dim1 example_inputs" by (simp add: example_inputs_def)
  from self_similarity_attention_structure[OF wi wp d p,
      of zero_variables 2 zero_variables 2]
  have "\<exists>attention_outputs self_similarity.
      self_similarity_attention zero_variables zero_variables example_inputs
        example_past_inputs 2 4 2 = Inr (attention_outputs, self_similarity) \<and>
      dim0 self_similarity = 2 \<and> dim1 self_similarity = 3 \<and> dim2 self_similarity = 3"
    unfolding e by auto
  with wi wp d p show ?thesis by blast
qed

text \<open>
  Claim C10. The parameter batch_size of self_similarity_attention has no effect on the
  result: any two values of it give the same attention outputs and self_similarity.
\<close>

theorem batch_size_has_no_effect:
  "self_similarity_attention conv conv_1 inputs past_inputs batch_size input_size embedding_size
     = self_similarity_attention conv conv_1 inputs past_inputs batch_size' input_size
         embedding_size"
  by (simp add: self_similarity_attention_def)

section \<open>The end-to-end example\<close>

text \<open>
  Claim C2, as amended. For one layer of size 4 with embedding size 2, a batch of 2, three
  steps and no past inputs, self_similarity_attention returns an attention output of shape
  \<open>(2, 3, 4)\<close> and a self_similarity of shape \<open>(2, 3, 2)\<close>, and the windows of the
  three rows have the sizes 0, 1 and 2, as \<open>offset + i + 1\<close> with
  \<open>offset = (Tp + T - 1) - T = -1\<close> says: in row \<open>i\<close> every column from \<open>i\<close> on
  has the weight 0, so that row 0 has no nonzero weight, row 1 at most one and row 2 at
  most two.
\<close>

theorem end_to_end_example_windows:
  assumes wfi: "wf_tensor inputs" and wfp: "wf_tensor past_inputs"
    and di: "dim0 inputs = 2" "dim1 inputs = 3" "dim2 inputs = 4"
    and dp: "dim0 past_inputs = 2" "dim1 past_inputs = 0" "dim2 past_inputs = 4"
  shows "\<exists>attention_outputs self_similarity attention_weights.
           self_similarity_attention conv conv_1 inputs past_inputs batch_size 4 2
             = Inr (attention_outputs, self_similarity) \<and>
           dim0 attention_outputs = 2 \<and> dim1 attention_outputs = 3 \<and>
           dim2 attention_outputs = 4 \<and>
           dim0 self_similarity = 2 \<and> dim1 self_similarity = 3 \<and> dim2 self_similarity = 2 \<and>
           tf_range (int (dim2 self_similarity) - int (dim1 self_similarity) + 1)
             (int (dim2 self_similarity) + 1) = [0, 1, 2] \<and>
           attention self_similarity = Inr attention_weights \<and>
           (\<forall>b<2. \<forall>i<3.
              (\<forall>j<2. i \<le> j \<longrightarrow> at3 attention_weights b i j = 0) \<and>
              card {j. j < 2 \<and> at3 attention_weights b i j \<noteq> 0} \<le> i)"
proof -
  have pos: "0 < dim1 inputs" using di by simp
  from self_similarity_attention_shapes[OF wfi wfp _ _ _ pos, of 4 conv conv_1 batch_size 2]
    di dp
  obtain out ss where res: "self_similarity_attention conv conv_1 inputs past_inputs batch_size
                              4 2 = Inr (out, ss)"
    and wfss: "wf_tensor ss"
    and ssd: "dim0 ss = 2" "dim1 ss = 3" "dim2 ss = 2"
    and outd: "dim0 out = 2" "dim1 out = 3" "dim2 out = 4"
    by auto
  have steps: "tf_range (int (dim2 ss) - int (dim1 ss) + 1) (int (dim2 ss) + 1) = [0, 1, 2]"
    by (simp add: ssd tf_range_def upt_rec)
  obtain a where a: "attention ss = Inr a"
    using attention_Inr[of ss] ssd by auto
  have w: "(\<forall>j<2. i \<le> j \<longrightarrow> at3 a b i j = 0) \<and>
           card {j. j < 2 \<and> at3 a b i j \<noteq> 0} \<le> i"
    if b: "b < 2" and i: "i < 3" for b i
  proof -
    have b': "b < dim0 ss" and i': "i < dim1 ss" using b i ssd by simp_all
    have n: "slice_bound (int (dim2 ss) - int (dim1 ss) + 1 + int i) (dim2 ss) = i"
      using i by (simp add: ssd slice_bound_def)
    note aw = attention_window[OF a wfss b' i', unfolded n]
    have z: "at3 a b i j = 0" if "j < 2" "i \<le> j" for j
      using aw(3)[of j] that ssd by simp
    have "{j. j < 2 \<and> at3 a b i j \<noteq> 0} \<subseteq> {..<i}"
    proof
      fix j
      assume "j \<in> {j. j < 2 \<and> at3 a b i j \<noteq> 0}"
      then have j: "j < 2" "at3 a b i j \<noteq> 0" by simp_all
      have "j < i"
      proof (rule ccontr)
        assume "\<not> j < i"
        then have "at3 a b i j = 0" using z[of j] j(1) by simp
        with j(2) show False by simp
      qed
      then show "j \<in> {..<i}" by simp
    qed
    then have "card {j. j < 2 \<and> at3 a b i j \<noteq> 0} \<le> card {..<i}"
      by (intro card_mono) simp_all
    then have "card {j. j < 2 \<and> at3 a b i j \<noteq> 0} \<le> i" by simp
    with z show ?thesis by blast
  qed
  from res outd ssd steps a w show ?thesis by blast
qed

theorem end_to_end_example_windows_witness:
  "wf_tensor example_inputs \<and> wf_tensor (tf_zeros 2 0 4) \<and>
   dim0 example_inputs = 2 \<and> dim1 example_inputs = 3 \<and> dim2 example_inputs = 4 \<and>
   dim0 (tf_zeros 2 0 4) = 2 \<and> dim1 (tf_zeros 2 0 4) = 0 \<and> dim2 (tf_zeros 2 0 4) = 4 \<and>
   (\<exists>attention_outputs self_similarity attention_weights.
      self_similarity_attention zero_variables zero_variables example_inputs (tf_zeros 2 0 4)
        2 4 2 = Inr (attention_outputs, self_similarity) \<and>
      dim2 self_similarity = 2 \<and>
      attention self_similarity = Inr attention_weights \<and>
      at3 attention_weights 0 0 0 = 0 \<and>
      at3 attention_weights 0 0 1 = 0 \<and>
      at3 attention_weights 0 1 1 = 0)"
proof -
  have wi: "wf_tensor example_inputs" and wp: "wf_tensor (tf_zeros 2 0 4)"
    by (simp_all add: wf_tensor_def example_inputs_def tf_zeros_def)
  have d: "dim0 example_inputs = 2" "dim1 example_inputs = 3" "dim2 example_inputs = 4"
    "dim0 (tf_zeros 2 0 4) = 2" "dim1 (tf_zeros 2 0 4) = 0" "dim2 (tf_zeros 2 0 4) = 4"
    by (simp_all add: example_inputs_def tf_zeros_def)
  from end_to_end_example_windows[OF wi wp d, of zero_variables zero_variables 2]
  obtain out ss a where r: "self_similarity_attention zero_variables zero_variables
                              example_inputs (tf_zeros 2 0 4) 2 4 2 = Inr (out, ss)"
      "dim2 ss = 2" "attention ss = Inr a"
    and w: "\<forall>b<2. \<forall>i<3. (\<forall>j<2. i \<le> j \<longrightarrow> at3 a b i j = 0)"
    by blast
  from w have "\<forall>j<2. (0::nat) \<le> j \<longrightarrow> at3 a 0 0 j = 0"
    and "\<forall>j<2. (1::nat) \<le> j \<longrightarrow> at3 a 0 1 j = 0"
    by simp_all
  then have "at3 a 0 0 0 = 0" "at3 a 0 0 1 = 0" "at3 a 0 1 1 = 0" by simp_all
  with r wi wp d show ?thesis by blast
qed

text \<open>
  The claim as stated gives row 0 exactly one nonzero weight and the windows the sizes 1, 2
  and 2. On a concrete input the rows of the attention are \<open>[0, 0]\<close>, \<open>[1, 0]\<close> and
  \<open>[1/2, 1/2]\<close>, and row 0 of the output is zero.
\<close>

theorem end_to_end_example_counterexample:
  "self_similarity_attention zero_variables zero_variables example_inputs (tf_zeros 2 0 4) 2 4 2
     = Inr (\<lparr>dim0 = 2, dim1 = 3, dim2 = 4,
              vals = [[[0, 0, 0, 0], [5, 6, 7, 8], [7, 8, 9, 10]],
                      [[0, 0, 0, 0], [2, 2, 2, 2], [3, 3, 3, 3]]]\<rparr>,
            tf_zeros 2 3 2) \<and>
   attention (tf_zeros 2 3 2)
     = Inr \<lparr>dim0 = 2, dim1 = 3, dim2 = 2,
            vals = [[[0, 0], [1, 0], [1 / 2, 1 / 2]],
                    [[0, 0], [1, 0], [1 / 2, 1 / 2]]]\<rparr>"
proof -
  have u2: "[0..<2] = [0, 1]" and u3: "[0..<3] = [0, 1, 2]" and u4: "[0..<4] = [0, 1, 2, 3]"
    by (simp_all add: upt_rec)
  have s2: "{..<2::nat} = {0, 1}" and s3: "{..<3::nat} = {0, 1, 2}"
    by auto
  show ?thesis
    by (simp add: eval_defs zero_variables_def example_inputs_def u2 u3 u4 s2 s3
        numeral_2_eq_2 numeral_3_eq_3)
qed

section \<open>The softmax of generate mode\<close>

lemma map2_div_fill:
  "length row = n \<Longrightarrow> map2 (/) row (tf_fill n t) = map (\<lambda>x. x / t) row"
  by (simp add: tf_fill_def list_eq_iff_nth_eq)

lemma softmax_entry:
  assumes "c < length row"
  shows "softmax row ! c = exp (row ! c) / (\<Sum>k<length row. exp (row ! k))"
proof -
  have "sum_list (map exp row) = (\<Sum>k<length (map exp row). map exp row ! k)"
    by (rule sum_list_nth_lessThan)
  then show ?thesis using assms by (simp add: nth_softmax)
qed

lemma reshape_batch_Inr:
  assumes "0 < batch_size" "0 < num_classes" "length rows = batch_size * steps"
  shows "reshape_batch batch_size num_classes rows =
           Inr \<lparr>dim0 = batch_size, dim1 = steps, dim2 = num_classes,
                vals = map (\<lambda>b. take steps (drop (b * steps) rows)) [0..<batch_size]\<rparr>"
  using assms by (simp add: reshape_batch_def Let_def)

lemma reshape_index:
  assumes "b < batch_size" "s < steps" "length rows = batch_size * steps"
  shows "b * steps + s < length rows"
    and "take steps (drop (b * steps) rows) ! s = rows ! (b * steps + s)"
    and "length (take steps (drop (b * steps) rows)) = steps"
proof -
  have "b * steps + steps \<le> batch_size * steps"
  proof -
    have "Suc b \<le> batch_size" using assms(1) by simp
    then have "Suc b * steps \<le> batch_size * steps" by (rule mult_le_mono1)
    then show ?thesis by (simp add: add.commute)
  qed
  then show lt: "b * steps + s < length rows" and "length (take steps (drop (b * steps) rows)) = steps"
    using assms(2,3) by simp_all
  show "take steps (drop (b * steps) rows) ! s = rows ! (b * steps + s)"
    using assms(2) lt by simp
qed

lemma generate_softmax_entries:
  assumes bs: "0 < batch_size" and nc: "0 < num_classes"
    and len: "length logits_flat = batch_size * steps"
    and rows: "\<forall>row \<in> set logits_flat. length row = num_classes"
  shows "\<exists>out.
           generate_softmax batch_size num_classes temperature logits_flat = Inr out \<and>
           dim0 out = batch_size \<and> dim1 out = steps \<and> dim2 out = num_classes \<and>
           wf_tensor out \<and>
           (\<forall>b<batch_size. \<forall>s<steps. \<forall>c<num_classes.
              at3 out b s c =
                exp (logits_flat ! (b * steps + s) ! c / temperature) /
                (\<Sum>k<num_classes. exp (logits_flat ! (b * steps + s) ! k / temperature))) \<and>
           (temperature = 1 \<longrightarrow>
              (\<forall>b<batch_size. \<forall>s<steps.
                 vals out ! b ! s = softmax (logits_flat ! (b * steps + s))))"
proof -
  let ?sf = "map softmax (tf_div logits_flat (tf_fill num_classes temperature))"
  let ?out = "\<lparr>dim0 = batch_size, dim1 = steps, dim2 = num_classes,
                vals = map (\<lambda>b. take steps (drop (b * steps) ?sf)) [0..<batch_size]\<rparr>"
  have lsf: "length ?sf = batch_size * steps" by (simp add: tf_div_def len)
  have res: "generate_softmax batch_size num_classes temperature logits_flat = Inr ?out"
    unfolding generate_softmax_def Let_def by (rule reshape_batch_Inr[OF bs nc lsf])
  have row: "?sf ! n = softmax (map (\<lambda>x. x / temperature) (logits_flat ! n))"
    and rlen: "length (logits_flat ! n) = num_classes"
    if "n < length logits_flat" for n
  proof -
    show l: "length (logits_flat ! n) = num_classes" using rows that by simp
    show "?sf ! n = softmax (map (\<lambda>x. x / temperature) (logits_flat ! n))"
      using that by (simp add: tf_div_def map2_div_fill[OF l])
  qed
  have cell: "vals ?out ! b ! s = softmax (map (\<lambda>x. x / temperature) (logits_flat ! (b * steps + s)))"
    and clen: "length (logits_flat ! (b * steps + s)) = num_classes"
    if "b < batch_size" "s < steps" for b s
  proof -
    have lt: "b * steps + s < length logits_flat"
      using reshape_index(1)[OF that len] .
    show "length (logits_flat ! (b * steps + s)) = num_classes" by (rule rlen[OF lt])
    have "vals ?out ! b ! s = ?sf ! (b * steps + s)"
      using that reshape_index(2)[OF that lsf] by simp
    then show "vals ?out ! b ! s =
        softmax (map (\<lambda>x. x / temperature) (logits_flat ! (b * steps + s)))"
      by (simp add: row[OF lt])
  qed
  have wf: "wf_tensor ?out"
  proof (rule wf_tensorI)
    show "length (vals ?out) = dim0 ?out" by simp
    show "length (vals ?out ! b) = dim1 ?out" if "b < dim0 ?out" for b
    proof (cases "0 < steps")
      case True
      with that reshape_index(3)[OF _ True lsf, of b] show ?thesis by simp
    next
      case False
      with that show ?thesis by simp
    qed
    show "length (vals ?out ! b ! s) = dim2 ?out" if "b < dim0 ?out" "s < dim1 ?out" for b s
      using that cell[of b s] clen[of b s] by (simp add: length_softmax)
  qed
  have ent: "at3 ?out b s c =
                exp (logits_flat ! (b * steps + s) ! c / temperature) /
                (\<Sum>k<num_classes. exp (logits_flat ! (b * steps + s) ! k / temperature))"
    if "b < batch_size" "s < steps" "c < num_classes" for b s c
  proof -
    let ?r = "map (\<lambda>x. x / temperature) (logits_flat ! (b * steps + s))"
    have l: "length ?r = num_classes" using clen[OF that(1,2)] by simp
    have "at3 ?out b s c = softmax ?r ! c"
      unfolding at3_def using cell[OF that(1,2)] by simp
    also have "\<dots> = exp (?r ! c) / (\<Sum>k<length ?r. exp (?r ! k))"
      by (rule softmax_entry) (simp add: clen[OF that(1,2)] that(3))
    also have "\<dots> = exp (logits_flat ! (b * steps + s) ! c / temperature) /
                (\<Sum>k<num_classes. exp (logits_flat ! (b * steps + s) ! k / temperature))"
      using that(3) clen[OF that(1,2)] by simp
    finally show ?thesis .
  qed
  have one: "vals ?out ! b ! s = softmax (logits_flat ! (b * steps + s))"
    if "temperature = 1" "b < batch_size" "s < steps" for b s
    using cell[OF that(2,3)] that(1) by simp
  have d: "dim0 ?out = batch_size" "dim1 ?out = steps" "dim2 ?out = num_classes" by simp_all
  from res d wf ent one show ?thesis by blast
qed


lemma add_to_collection_same:
  "add_to_collection name element g name = g name @ [element]"
  by (simp add: add_to_collection_def)

lemma add_to_collection_other:
  "name \<noteq> n \<Longrightarrow> add_to_collection n element g name = g name"
  by (simp add: add_to_collection_def)

lemma fold_add_other:
  "name \<noteq> n \<Longrightarrow> fold (\<lambda>x g. add_to_collection n (f x) g) xs g name = g name"
  by (induction xs arbitrary: g) (simp_all add: add_to_collection_other)

lemma generate_layers_other:
  assumes "name \<noteq> ''targets''" "name \<noteq> ''past_targets''"
    "name \<noteq> ''initial_state''" "name \<noteq> ''final_state''"
  shows "fold (\<lambda>layer g.
            fold (\<lambda>state g. add_to_collection ''final_state'' (StateTensor state) g)
              (fin layer)
              (fold (\<lambda>state g. add_to_collection ''initial_state'' (StateTensor state) g)
                 (ini layer)
                 (add_to_collection ''past_targets'' (Tensor (pt layer))
                   (add_to_collection ''targets'' (Tensor (tg layer)) g))))
          layers g name = g name"
  using assms
  by (induction layers arbitrary: g) (simp_all add: fold_add_other add_to_collection_other)

text \<open>
  Claim C6. In generate mode, for logits of \<open>batch_size * steps\<close> rows of
  \<open>num_classes\<close> entries, the graph registers under \<open>softmax\<close> a tensor of shape
  \<open>(batch_size, steps, num_classes)\<close> whose entry for class \<open>c\<close> at step \<open>s\<close> of
  batch element \<open>b\<close> is the softmax over the classes of the logits of that row, each
  divided by the fed temperature; for temperature 1 every row is the plain softmax of the
  logits of the row. The temperature is not 0, where the float quotient is NaN or infinite.
\<close>

theorem generate_mode_softmax:
  assumes bs: "0 < hp_batch_size hparams" and nc: "0 < num_classes"
    and len: "length logits_flat = hp_batch_size hparams * steps"
    and rows: "\<forall>row \<in> set logits_flat. length row = num_classes"
    and temp: "env_temperature env \<noteq> 0"
  shows "\<exists>out g.
           generate_softmax (hp_batch_size hparams) num_classes (env_temperature env) logits_flat
             = Inr out \<and>
           generate_graph hparams num_classes env inputs past_targets logits_flat st empty_graph
             = Inr g \<and>
           g ''softmax'' = [Tensor out] \<and>
           g ''temperature'' = [Scalar (env_temperature env)] \<and>
           dim0 out = hp_batch_size hparams \<and> dim1 out = steps \<and> dim2 out = num_classes \<and>
           wf_tensor out \<and>
           (\<forall>b<hp_batch_size hparams. \<forall>s<steps. \<forall>c<num_classes.
              at3 out b s c =
                exp (logits_flat ! (b * steps + s) ! c / env_temperature env) /
                (\<Sum>k<num_classes.
                   exp (logits_flat ! (b * steps + s) ! k / env_temperature env))) \<and>
           (env_temperature env = 1 \<longrightarrow>
              (\<forall>b<hp_batch_size hparams. \<forall>s<steps.
                 vals out ! b ! s = softmax (logits_flat ! (b * steps + s))))"
proof -
  from generate_softmax_entries[OF bs nc len rows, of "env_temperature env"]
  obtain out where o: "generate_softmax (hp_batch_size hparams) num_classes
                         (env_temperature env) logits_flat = Inr out"
    and d: "dim0 out = hp_batch_size hparams" "dim1 out = steps" "dim2 out = num_classes"
    and wf: "wf_tensor out"
    and e: "\<forall>b<hp_batch_size hparams. \<forall>s<steps. \<forall>c<num_classes.
              at3 out b s c =
                exp (logits_flat ! (b * steps + s) ! c / env_temperature env) /
                (\<Sum>k<num_classes.
                   exp (logits_flat ! (b * steps + s) ! k / env_temperature env))"
    and t: "env_temperature env = 1 \<longrightarrow>
              (\<forall>b<hp_batch_size hparams. \<forall>s<steps.
                 vals out ! b ! s = softmax (logits_flat ! (b * steps + s)))"
    by blast
  have "\<exists>g. generate_graph hparams num_classes env inputs past_targets logits_flat st
                       empty_graph = Inr g \<and>
          g ''softmax'' = [Tensor out] \<and>
          g ''temperature'' = [Scalar (env_temperature env)]"
    by (simp add: generate_graph_def Let_def o generate_layers_other
        add_to_collection_same add_to_collection_other empty_graph_def)
  then obtain g where g: "generate_graph hparams num_classes env inputs past_targets logits_flat
                            st empty_graph = Inr g"
    and sm: "g ''softmax'' = [Tensor out]"
    and tm: "g ''temperature'' = [Scalar (env_temperature env)]"
    by blast
  from o g sm tm d wf e t show ?thesis by blast
qed

theorem generate_mode_softmax_witness:
  "0 < hp_batch_size \<lparr>hp_batch_size = 1, hp_rnn_layer_sizes = [[2]], hp_embedding_sizes = [1],
                       hp_learning_rate = 0, hp_clip_norm = 0\<rparr> \<and>
   (0::nat) < 2 \<and>
   length [[0, 0], [0, 0::real]] =
     hp_batch_size \<lparr>hp_batch_size = 1, hp_rnn_layer_sizes = [[2]], hp_embedding_sizes = [1],
                    hp_learning_rate = 0, hp_clip_norm = 0\<rparr> * 2 \<and>
   (\<exists>out. generate_softmax 1 2 1 [[0, 0], [0, 0]] = Inr out \<and>
          at3 out 0 1 0 = 1 / 2 \<and> vals out ! 0 ! 1 = softmax [0, 0])"
proof -
  let ?hp = "\<lparr>hp_batch_size = 1, hp_rnn_layer_sizes = [[2]], hp_embedding_sizes = [1],
              hp_learning_rate = 0, hp_clip_norm = 0\<rparr>"
  have h: "0 < hp_batch_size ?hp" "(0::nat) < 2"
    "length [[0, 0], [0, 0::real]] = hp_batch_size ?hp * 2"
    "\<forall>row \<in> set [[0, 0], [0, 0::real]]. length row = 2"
    by simp_all
  have t: "env_temperature (example_env :: unit tf_env) = 1"
    by (simp add: example_env_def)
  have t0: "env_temperature (example_env :: unit tf_env) \<noteq> 0"
    by (simp add: example_env_def)
  from generate_mode_softmax[OF h t0, of example_inputs "[]" st] t
  have "\<exists>out. generate_softmax 1 2 1 [[0, 0], [0, 0]] = Inr out \<and>
          at3 out 0 1 0 = 1 / 2 \<and> vals out ! 0 ! 1 = softmax [0, 0]"
    for st :: "unit layer_stack"
    by (auto simp: numeral_2_eq_2)
  with h(1,2,3) show ?thesis by blast
qed

section \<open>The metrics of train mode\<close>

lemma image_summaries_other:
  "name \<noteq> ''summaries'' \<Longrightarrow> image_summaries ss n g name = g name"
  unfolding image_summaries_def by (rule fold_add_other)

lemma fold_num_steps:
  "fold (\<lambda>(labels, len) num_steps. num_steps + f (take len labels)) xs a =
     a + (\<Sum>(labels, len)\<leftarrow>xs. f (take len labels))" for a :: int
  by (induction xs arbitrary: a) (auto simp: algebra_simps)

lemma batch_labels_to_num_steps_sum:
  "batch_labels_to_num_steps encoder_decoder batch_labels lengths =
     real_of_int (\<Sum>(labels, len)\<leftarrow>zip batch_labels lengths.
                    ed_labels_to_num_steps encoder_decoder (take len labels))"
  by (simp add: batch_labels_to_num_steps_def fold_num_steps)

lemma train_vars_collections:
  assumes "g ''loss'' = []" "g ''metrics/perplexity'' = []"
    "g ''metrics/loss_per_step'' = []" "g ''metrics/perplexity_per_step'' = []"
  shows "summarize_vars (train_vars_to_summarize ce cp ep nep num_steps) g ''loss''
           = [Scalar (reduce_mean ce)]"
    and "summarize_vars (train_vars_to_summarize ce cp ep nep num_steps) g ''metrics/perplexity''
           = [Scalar (exp (reduce_mean ce))]"
    and "summarize_vars (train_vars_to_summarize ce cp ep nep num_steps) g
           ''metrics/loss_per_step'' = [Scalar (reduce_sum ce / num_steps)]"
    and "summarize_vars (train_vars_to_summarize ce cp ep nep num_steps) g
           ''metrics/perplexity_per_step'' = [Scalar (exp (reduce_sum ce / num_steps))]"
  using assms
  by (simp_all add: summarize_vars_def train_vars_to_summarize_def Let_def
      add_to_collection_same add_to_collection_other)

text \<open>
  Claim C7. In train mode, for the per-position cross-entropy values of a batch, the graph
  registers under \<open>loss\<close> their mean, under \<open>metrics/perplexity\<close> the exponential of
  that mean, under \<open>metrics/loss_per_step\<close> their sum divided by the step count, which
  is the sum over the examples of \<open>labels_to_num_steps\<close> of the labels up to the length
  of the example and not the number of positions, and under
  \<open>metrics/perplexity_per_step\<close> the exponential of that quotient. The batch has at
  least one position and a step count other than 0: a float quotient by zero is NaN or
  infinite, which the real numbers of the model do not hold.
\<close>

theorem train_mode_metrics:
  assumes ce: "sparse_softmax_cross_entropy_with_logits
                 (flatten_maybe_padded_sequences labels (Some lengths)) logits_flat
               = Inr softmax_cross_entropy"
    and positions: "softmax_cross_entropy \<noteq> []"
    and steps: "batch_labels_to_num_steps encoder_decoder labels lengths \<noteq> 0"
  shows "\<exists>g. train_eval_graph ''train'' hparams encoder_decoder env labels lengths logits_flat
               self_similarity empty_graph = Inr g \<and>
             g ''loss'' =
               [Scalar ((\<Sum>i<length softmax_cross_entropy. softmax_cross_entropy ! i) /
                        real (length softmax_cross_entropy))] \<and>
             g ''metrics/perplexity'' =
               [Scalar (exp ((\<Sum>i<length softmax_cross_entropy. softmax_cross_entropy ! i) /
                             real (length softmax_cross_entropy)))] \<and>
             g ''metrics/loss_per_step'' =
               [Scalar ((\<Sum>i<length softmax_cross_entropy. softmax_cross_entropy ! i) /
                        real_of_int (\<Sum>(labels, len)\<leftarrow>zip labels lengths.
                           ed_labels_to_num_steps encoder_decoder (take len labels)))] \<and>
             g ''metrics/perplexity_per_step'' =
               [Scalar (exp ((\<Sum>i<length softmax_cross_entropy. softmax_cross_entropy ! i) /
                             real_of_int (\<Sum>(labels, len)\<leftarrow>zip labels lengths.
                                ed_labels_to_num_steps encoder_decoder (take len labels))))]"
proof -
  let ?g0 = "image_summaries self_similarity (length (hp_rnn_layer_sizes hparams))
               (add_to_collection ''train_op''
                  (TrainOp (reduce_mean softmax_cross_entropy) (hp_learning_rate hparams)
                     (hp_clip_norm hparams))
                  empty_graph)"
  have e: "?g0 ''loss'' = []" "?g0 ''metrics/perplexity'' = []"
    "?g0 ''metrics/loss_per_step'' = []" "?g0 ''metrics/perplexity_per_step'' = []"
    by (simp_all add: image_summaries_other add_to_collection_other empty_graph_def)
  define num_steps where "num_steps = batch_labels_to_num_steps encoder_decoder labels lengths"
  let ?cp = "map2 (\<lambda>label prediction. to_float (label = prediction))
          (flatten_maybe_padded_sequences labels (Some lengths))
          (map tf_argmax logits_flat)"
  let ?ep = "map (\<lambda>label. to_float (label \<noteq> ed_default_event_label encoder_decoder))
          (flatten_maybe_padded_sequences labels (Some lengths))"
  let ?nep = "map (\<lambda>label. to_float (label = ed_default_event_label encoder_decoder))
          (flatten_maybe_padded_sequences labels (Some lengths))"
  define g where "g = summarize_vars
      (train_vars_to_summarize softmax_cross_entropy ?cp ?ep ?nep num_steps) ?g0"
  have r: "train_eval_graph ''train'' hparams encoder_decoder env labels lengths logits_flat
             self_similarity empty_graph = Inr g"
    unfolding train_eval_graph_def Let_def ce g_def num_steps_def by simp
  note c = train_vars_collections[OF e, of softmax_cross_entropy ?cp ?ep ?nep num_steps,
      folded g_def]
  have s: "reduce_sum softmax_cross_entropy =
             (\<Sum>i<length softmax_cross_entropy. softmax_cross_entropy ! i)"
    unfolding reduce_sum_def by (rule sum_list_nth_lessThan)
  have m: "reduce_mean softmax_cross_entropy =
             (\<Sum>i<length softmax_cross_entropy. softmax_cross_entropy ! i) /
             real (length softmax_cross_entropy)"
    unfolding reduce_mean_def by (simp add: sum_list_nth_lessThan[symmetric])
  have n: "num_steps = real_of_int (\<Sum>(labels, len)\<leftarrow>zip labels lengths.
                           ed_labels_to_num_steps encoder_decoder (take len labels))"
    unfolding num_steps_def by (rule batch_labels_to_num_steps_sum)
  have "g ''loss'' =
          [Scalar ((\<Sum>i<length softmax_cross_entropy. softmax_cross_entropy ! i) /
                   real (length softmax_cross_entropy))]"
    using c(1) by (simp only: m)
  moreover have "g ''metrics/perplexity'' =
          [Scalar (exp ((\<Sum>i<length softmax_cross_entropy. softmax_cross_entropy ! i) /
                        real (length softmax_cross_entropy)))]"
    using c(2) by (simp only: m)
  moreover have "g ''metrics/loss_per_step'' =
          [Scalar ((\<Sum>i<length softmax_cross_entropy. softmax_cross_entropy ! i) /
                   real_of_int (\<Sum>(labels, len)\<leftarrow>zip labels lengths.
                      ed_labels_to_num_steps encoder_decoder (take len labels)))]"
    using c(3) by (simp only: s n)
  moreover have "g ''metrics/perplexity_per_step'' =
          [Scalar (exp ((\<Sum>i<length softmax_cross_entropy. softmax_cross_entropy ! i) /
                        real_of_int (\<Sum>(labels, len)\<leftarrow>zip labels lengths.
                           ed_labels_to_num_steps encoder_decoder (take len labels))))]"
    using c(4) by (simp only: s n)
  ultimately show ?thesis using r by blast
qed

theorem train_mode_metrics_witness:
  "sparse_softmax_cross_entropy_with_logits
     (flatten_maybe_padded_sequences [[0, 1, 0], [1, 0, 1]] (Some [1, 0])) [[0, 0]]
     = Inr [ln 2] \<and>
   (\<exists>g. train_eval_graph ''train'' example_hparams example_encoder_decoder example_env
          [[0, 1, 0], [1, 0, 1]] [1, 0] [[0, 0]] [tf_zeros 2 3 2] empty_graph = Inr g \<and>
        g ''loss'' = [Scalar (ln 2)] \<and>
        g ''metrics/loss_per_step'' = [Scalar (ln 2 / 2)])"
proof -
  have ce: "sparse_softmax_cross_entropy_with_logits
     (flatten_maybe_padded_sequences [[0, 1, 0], [1, 0, 1]] (Some [1, 0])) [[0, 0]]
     = Inr [ln 2]"
    by (simp add: sparse_softmax_cross_entropy_with_logits_def
        flatten_maybe_padded_sequences_def softmax_def ln_div)
  have ne: "[ln 2] \<noteq> ([] :: real list)" by simp
  have ns: "batch_labels_to_num_steps example_encoder_decoder [[0, 1, 0], [1, 0, 1]] [1, 0]
              \<noteq> 0"
    by (simp add: batch_labels_to_num_steps_def example_encoder_decoder_def)
  from train_mode_metrics[OF ce ne ns, of example_hparams example_env "[tf_zeros 2 3 2]"]
  have "\<exists>g. train_eval_graph ''train'' example_hparams example_encoder_decoder example_env
          [[0, 1, 0], [1, 0, 1]] [1, 0] [[0, 0]] [tf_zeros 2 3 2] empty_graph = Inr g \<and>
        g ''loss'' = [Scalar (ln 2)] \<and>
        g ''metrics/loss_per_step'' = [Scalar (ln 2 / 2)]"
    by (auto simp: example_encoder_decoder_def)
  with ce show ?thesis by blast
qed

section \<open>The recurrent stack\<close>

lemma fold_append_map: "fold (\<lambda>x acc. acc @ [f x]) xs a = a @ map f xs"
  by (induction xs arbitrary: a) simp_all

lemma make_rnn_cell_Inr:
  "make_rnn_cell sizes base_cell = Inr cell \<longleftrightarrow>
     sizes \<noteq> [] \<and> cell = MultiRNNCell (map base_cell sizes)"
  by (auto simp: make_rnn_cell_def Let_def fold_append_map)

lemma rnn_layer_Inr:
  assumes "rnn_layer env hparams lengths past_targets layer st = Inr st'"
  shows "\<exists>attention_outputs layer_self_similarity outputs.
           self_similarity_attention (env_conv env layer) (env_conv_1 env layer)
             (fst (env_dynamic_rnn env layer
                     (MultiRNNCell (map BasicLSTMCell (hp_rnn_layer_sizes hparams ! layer)))
                     (ls_layer_inputs st) lengths
                     (env_zero_state env
                        (MultiRNNCell (map BasicLSTMCell (hp_rnn_layer_sizes hparams ! layer)))
                        (hp_batch_size hparams))))
             (past_targets ! layer) (hp_batch_size hparams)
             (last (hp_rnn_layer_sizes hparams ! layer)) (hp_embedding_sizes hparams ! layer)
           = Inr (attention_outputs, layer_self_similarity) \<and>
           concat_axis2
             (fst (env_dynamic_rnn env layer
                     (MultiRNNCell (map BasicLSTMCell (hp_rnn_layer_sizes hparams ! layer)))
                     (ls_layer_inputs st) lengths
                     (env_zero_state env
                        (MultiRNNCell (map BasicLSTMCell (hp_rnn_layer_sizes hparams ! layer)))
                        (hp_batch_size hparams))))
             attention_outputs = Inr outputs \<and>
           ls_targets st' = ls_targets st @
             [fst (env_dynamic_rnn env layer
                     (MultiRNNCell (map BasicLSTMCell (hp_rnn_layer_sizes hparams ! layer)))
                     (ls_layer_inputs st) lengths
                     (env_zero_state env
                        (MultiRNNCell (map BasicLSTMCell (hp_rnn_layer_sizes hparams ! layer)))
                        (hp_batch_size hparams)))] \<and>
           ls_self_similarity st' = ls_self_similarity st @ [layer_self_similarity] \<and>
           ls_layer_inputs st' = outputs \<and> ls_outputs st' = Some outputs"
  using assms
  by (auto simp: rnn_layer_def Let_def py_index_def py_last_def make_rnn_cell_Inr
      split: sum.splits if_splits prod.splits)


lemma rnn_layers_append:
  "rnn_layers env hparams lengths past_targets (xs @ ys) st =
     (case rnn_layers env hparams lengths past_targets xs st of
        Inl err \<Rightarrow> Inl err
      | Inr st' \<Rightarrow> rnn_layers env hparams lengths past_targets ys st')"
  by (induction xs arbitrary: st) (auto split: sum.splits)

lemma rnn_layers_invariant:
  fixes env :: "'s tf_env"
  defines "rnn_out \<equiv> \<lambda>env hparams lengths layer layer_inputs.
      fst (env_dynamic_rnn env layer
             (MultiRNNCell (map BasicLSTMCell (hp_rnn_layer_sizes hparams ! layer)))
             layer_inputs lengths
             (env_zero_state env
                (MultiRNNCell (map BasicLSTMCell (hp_rnn_layer_sizes hparams ! layer)))
                (hp_batch_size hparams)))"
  assumes run: "rnn_layers env hparams lengths past_targets [0..<n] st0 = Inr st"
    and e: "ls_targets st0 = []" "ls_self_similarity st0 = []"
  shows "length (ls_targets st) = n \<and> length (ls_self_similarity st) = n \<and>
         (\<exists>ins. length ins = Suc n \<and> ins ! 0 = ls_layer_inputs st0 \<and>
            ins ! n = ls_layer_inputs st \<and>
            (\<forall>layer<n.
               ls_targets st ! layer = rnn_out env hparams lengths layer (ins ! layer) \<and>
               (\<exists>attention_outputs.
                  self_similarity_attention (env_conv env layer) (env_conv_1 env layer)
                    (rnn_out env hparams lengths layer (ins ! layer))
                    (past_targets ! layer) (hp_batch_size hparams)
                    (last (hp_rnn_layer_sizes hparams ! layer))
                    (hp_embedding_sizes hparams ! layer)
                  = Inr (attention_outputs, ls_self_similarity st ! layer) \<and>
                  concat_axis2 (rnn_out env hparams lengths layer (ins ! layer))
                    attention_outputs = Inr (ins ! Suc layer))))"
  using run
proof (induction n arbitrary: st)
  case 0
  then have "st = st0" by simp
  then show ?case using e by (intro conjI exI[of _ "[ls_layer_inputs st0]"]) simp_all
next
  case (Suc n)
  from Suc.prems obtain st1 where
    r1: "rnn_layers env hparams lengths past_targets [0..<n] st0 = Inr st1"
    and r2: "rnn_layer env hparams lengths past_targets n st1 = Inr st"
    by (auto simp: rnn_layers_append split: sum.splits)
  from Suc.IH[OF r1] obtain ins where
    l1: "length (ls_targets st1) = n" "length (ls_self_similarity st1) = n"
    and ins: "length ins = Suc n" "ins ! 0 = ls_layer_inputs st0" "ins ! n = ls_layer_inputs st1"
    and inv: "\<forall>layer<n.
               ls_targets st1 ! layer = rnn_out env hparams lengths layer (ins ! layer) \<and>
               (\<exists>attention_outputs.
                  self_similarity_attention (env_conv env layer) (env_conv_1 env layer)
                    (rnn_out env hparams lengths layer (ins ! layer))
                    (past_targets ! layer) (hp_batch_size hparams)
                    (last (hp_rnn_layer_sizes hparams ! layer))
                    (hp_embedding_sizes hparams ! layer)
                  = Inr (attention_outputs, ls_self_similarity st1 ! layer) \<and>
                  concat_axis2 (rnn_out env hparams lengths layer (ins ! layer))
                    attention_outputs = Inr (ins ! Suc layer))"
    by blast
  from rnn_layer_Inr[OF r2] obtain att lss outputs where
    a: "self_similarity_attention (env_conv env n) (env_conv_1 env n)
          (rnn_out env hparams lengths n (ls_layer_inputs st1))
          (past_targets ! n) (hp_batch_size hparams)
          (last (hp_rnn_layer_sizes hparams ! n)) (hp_embedding_sizes hparams ! n)
        = Inr (att, lss)"
    and c: "concat_axis2 (rnn_out env hparams lengths n (ls_layer_inputs st1)) att = Inr outputs"
    and t: "ls_targets st = ls_targets st1 @ [rnn_out env hparams lengths n (ls_layer_inputs st1)]"
    and s: "ls_self_similarity st = ls_self_similarity st1 @ [lss]"
    and o: "ls_layer_inputs st = outputs"
    unfolding rnn_out_def by blast
  let ?ins = "ins @ [outputs]"
  have "length (ls_targets st) = Suc n" "length (ls_self_similarity st) = Suc n"
    using l1 t s by simp_all
  moreover have "length ?ins = Suc (Suc n)" "?ins ! 0 = ls_layer_inputs st0"
    "?ins ! Suc n = ls_layer_inputs st"
    using ins o by (simp_all add: nth_append)
  moreover have "ls_targets st ! layer = rnn_out env hparams lengths layer (?ins ! layer) \<and>
               (\<exists>attention_outputs.
                  self_similarity_attention (env_conv env layer) (env_conv_1 env layer)
                    (rnn_out env hparams lengths layer (?ins ! layer))
                    (past_targets ! layer) (hp_batch_size hparams)
                    (last (hp_rnn_layer_sizes hparams ! layer))
                    (hp_embedding_sizes hparams ! layer)
                  = Inr (attention_outputs, ls_self_similarity st ! layer) \<and>
                  concat_axis2 (rnn_out env hparams lengths layer (?ins ! layer))
                    attention_outputs = Inr (?ins ! Suc layer))"
    if "layer < Suc n" for layer
  proof (cases "layer < n")
    case True
    with inv l1 ins t s show ?thesis by (simp add: nth_append)
  next
    case False
    with that have "layer = n" by simp
    with a c t s l1 ins show ?thesis by (simp add: nth_append)
  qed
  ultimately show ?case by blast
qed



lemma example_attention:
  "self_similarity_attention zero_variables zero_variables example_inputs (tf_zeros 2 0 4) 2 4 2
     = Inr (\<lparr>dim0 = 2, dim1 = 3, dim2 = 4,
              vals = [[[0, 0, 0, 0], [5, 6, 7, 8], [7, 8, 9, 10]],
                      [[0, 0, 0, 0], [2, 2, 2, 2], [3, 3, 3, 3]]]\<rparr>,
            tf_zeros 2 3 2)"
proof -
  have u2: "[0..<2] = [0, 1]" and u3: "[0..<3] = [0, 1, 2]" and u4: "[0..<4] = [0, 1, 2, 3]"
    by (simp_all add: upt_rec)
  have s2: "{..<2::nat} = {0, 1}" and s3: "{..<3::nat} = {0, 1, 2}"
    by auto
  show ?thesis
    by (simp add: eval_defs zero_variables_def example_inputs_def u2 u3 u4 s2 s3
        numeral_2_eq_2 numeral_3_eq_3)
qed

lemma example_layers:
  "rnn_layers example_env example_hparams None [tf_zeros 2 0 4] [0..<1]
     \<lparr>ls_targets = [], ls_initial_state = [], ls_final_state = [],
      ls_self_similarity = [], ls_layer_inputs = example_inputs, ls_outputs = None\<rparr>
   = Inr example_stack"
proof -
  have a: "self_similarity_attention zero_variables zero_variables example_inputs
             (tf_zeros 2 0 4) 2 4 2
           = Inr (\<lparr>dim0 = 2, dim1 = 3, dim2 = 4,
              vals = [[[0, 0, 0, 0], [5, 6, 7, 8], [7, 8, 9, 10]],
                      [[0, 0, 0, 0], [2, 2, 2, 2], [3, 3, 3, 3]]]\<rparr>,
            tf_zeros 2 3 2)"
    by (rule example_attention)
  have c: "concat_axis2 example_inputs
             \<lparr>dim0 = 2, dim1 = 3, dim2 = 4,
              vals = [[[0, 0, 0, 0], [5, 6, 7, 8], [7, 8, 9, 10]],
                      [[0, 0, 0, 0], [2, 2, 2, 2], [3, 3, 3, 3]]]\<rparr>
           = Inr example_outputs"
    by (simp add: concat_axis2_def example_inputs_def example_outputs_def)
  show ?thesis
    by (simp add: rnn_layer_def Let_def py_index_def py_last_def make_rnn_cell_def
        example_env_def example_hparams_def example_stack_def a c)
qed

text \<open>
  Claim C8. When the loop over the layers completes, there is for every layer an input,
  the first being the inputs of the graph and the last the output of the stack, such that
  for every layer: the tracked targets of the layer are exactly the raw outputs of its
  recurrent cell on its input, and the input of the next layer is the concatenation along
  the feature axis of these raw outputs and of the attention outputs that
  self_similarity_attention computes from them and from the past targets of the layer.
\<close>

theorem rnn_stack_layer_wiring:
  assumes "rnn_layers env hparams lengths past_targets [0..<num_layers]
             \<lparr>ls_targets = [], ls_initial_state = [], ls_final_state = [],
              ls_self_similarity = [], ls_layer_inputs = inputs, ls_outputs = None\<rparr>
           = Inr st"
  shows "length (ls_targets st) = num_layers \<and>
         (\<exists>layer_inputs.
            length layer_inputs = Suc num_layers \<and>
            layer_inputs ! 0 = inputs \<and>
            layer_inputs ! num_layers = ls_layer_inputs st \<and>
            (\<forall>layer<num_layers. \<exists>rnn_outputs attention_outputs.
               rnn_outputs =
                 fst (env_dynamic_rnn env layer
                        (MultiRNNCell (map BasicLSTMCell (hp_rnn_layer_sizes hparams ! layer)))
                        (layer_inputs ! layer) lengths
                        (env_zero_state env
                           (MultiRNNCell
                              (map BasicLSTMCell (hp_rnn_layer_sizes hparams ! layer)))
                           (hp_batch_size hparams))) \<and>
               ls_targets st ! layer = rnn_outputs \<and>
               self_similarity_attention (env_conv env layer) (env_conv_1 env layer)
                 rnn_outputs (past_targets ! layer) (hp_batch_size hparams)
                 (last (hp_rnn_layer_sizes hparams ! layer))
                 (hp_embedding_sizes hparams ! layer)
               = Inr (attention_outputs, ls_self_similarity st ! layer) \<and>
               concat_axis2 rnn_outputs attention_outputs = Inr (layer_inputs ! Suc layer) \<and>
               dim2 (layer_inputs ! Suc layer) = dim2 rnn_outputs + dim2 attention_outputs \<and>
               vals (layer_inputs ! Suc layer) =
                 map2 (map2 (@)) (vals rnn_outputs) (vals attention_outputs)))"
proof -
  let ?st0 = "\<lparr>ls_targets = [], ls_initial_state = [], ls_final_state = [],
              ls_self_similarity = [], ls_layer_inputs = inputs, ls_outputs = None\<rparr>
              :: 's layer_stack"
  have e: "ls_targets ?st0 = []" "ls_self_similarity ?st0 = []" by simp_all
  from rnn_layers_invariant[OF assms e] obtain ins where
    len: "length (ls_targets st) = num_layers"
    and ins: "length ins = Suc num_layers" "ins ! 0 = inputs"
      "ins ! num_layers = ls_layer_inputs st"
    and inv: "\<And>layer. layer < num_layers \<Longrightarrow>
       ls_targets st ! layer =
         fst (env_dynamic_rnn env layer
                (MultiRNNCell (map BasicLSTMCell (hp_rnn_layer_sizes hparams ! layer)))
                (ins ! layer) lengths
                (env_zero_state env
                   (MultiRNNCell (map BasicLSTMCell (hp_rnn_layer_sizes hparams ! layer)))
                   (hp_batch_size hparams))) \<and>
       (\<exists>attention_outputs.
          self_similarity_attention (env_conv env layer) (env_conv_1 env layer)
            (fst (env_dynamic_rnn env layer
                (MultiRNNCell (map BasicLSTMCell (hp_rnn_layer_sizes hparams ! layer)))
                (ins ! layer) lengths
                (env_zero_state env
                   (MultiRNNCell (map BasicLSTMCell (hp_rnn_layer_sizes hparams ! layer)))
                   (hp_batch_size hparams))))
            (past_targets ! layer) (hp_batch_size hparams)
            (last (hp_rnn_layer_sizes hparams ! layer))
            (hp_embedding_sizes hparams ! layer)
          = Inr (attention_outputs, ls_self_similarity st ! layer) \<and>
          concat_axis2
            (fst (env_dynamic_rnn env layer
                (MultiRNNCell (map BasicLSTMCell (hp_rnn_layer_sizes hparams ! layer)))
                (ins ! layer) lengths
                (env_zero_state env
                   (MultiRNNCell (map BasicLSTMCell (hp_rnn_layer_sizes hparams ! layer)))
                   (hp_batch_size hparams))))
            attention_outputs = Inr (ins ! Suc layer))"
    by auto
  have cc: "dim2 c = dim2 a + dim2 b \<and> vals c = map2 (map2 (@)) (vals a) (vals b)"
    if "concat_axis2 a b = Inr c" for a b c
    using that by (auto simp: concat_axis2_def split: if_splits)
  have step: "\<exists>rnn_outputs attention_outputs.
               rnn_outputs =
                 fst (env_dynamic_rnn env layer
                        (MultiRNNCell (map BasicLSTMCell (hp_rnn_layer_sizes hparams ! layer)))
                        (ins ! layer) lengths
                        (env_zero_state env
                           (MultiRNNCell
                              (map BasicLSTMCell (hp_rnn_layer_sizes hparams ! layer)))
                           (hp_batch_size hparams))) \<and>
               ls_targets st ! layer = rnn_outputs \<and>
               self_similarity_attention (env_conv env layer) (env_conv_1 env layer)
                 rnn_outputs (past_targets ! layer) (hp_batch_size hparams)
                 (last (hp_rnn_layer_sizes hparams ! layer))
                 (hp_embedding_sizes hparams ! layer)
               = Inr (attention_outputs, ls_self_similarity st ! layer) \<and>
               concat_axis2 rnn_outputs attention_outputs = Inr (ins ! Suc layer) \<and>
               dim2 (ins ! Suc layer) = dim2 rnn_outputs + dim2 attention_outputs \<and>
               vals (ins ! Suc layer) =
                 map2 (map2 (@)) (vals rnn_outputs) (vals attention_outputs)"
    if l: "layer < num_layers" for layer
  proof -
    let ?r = "fst (env_dynamic_rnn env layer
                (MultiRNNCell (map BasicLSTMCell (hp_rnn_layer_sizes hparams ! layer)))
                (ins ! layer) lengths
                (env_zero_state env
                   (MultiRNNCell (map BasicLSTMCell (hp_rnn_layer_sizes hparams ! layer)))
                   (hp_batch_size hparams)))"
    from inv[OF l] obtain att where
      t: "ls_targets st ! layer = ?r"
      and a: "self_similarity_attention (env_conv env layer) (env_conv_1 env layer) ?r
                (past_targets ! layer) (hp_batch_size hparams)
                (last (hp_rnn_layer_sizes hparams ! layer))
                (hp_embedding_sizes hparams ! layer)
              = Inr (att, ls_self_similarity st ! layer)"
      and c: "concat_axis2 ?r att = Inr (ins ! Suc layer)"
      by blast
    from cc[OF c] t a c show ?thesis by blast
  qed
  from len ins step show ?thesis by blast
qed

theorem rnn_stack_layer_wiring_witness:
  "rnn_layers example_env example_hparams None [tf_zeros 2 0 4] [0..<1]
     \<lparr>ls_targets = [], ls_initial_state = [], ls_final_state = [],
      ls_self_similarity = [], ls_layer_inputs = example_inputs, ls_outputs = None\<rparr>
   = Inr example_stack \<and>
   length (ls_targets example_stack) = 1 \<and>
   ls_targets example_stack ! 0 = example_inputs \<and>
   dim2 (ls_layer_inputs example_stack) = 8"
proof -
  from rnn_stack_layer_wiring[OF example_layers]
  have "length (ls_targets example_stack) = 1" by blast
  moreover have "ls_targets example_stack ! 0 = example_inputs"
    "dim2 (ls_layer_inputs example_stack) = 8"
    by (simp_all add: example_stack_def example_outputs_def)
  ultimately show ?thesis using example_layers by simp
qed

section \<open>The mode guard of build_graph\<close>

lemma attention_no_ValueError: "attention ss \<noteq> Inl (ValueError message)"
  by (simp add: attention_def Let_def tf_map_fn_def)

lemma similarity_weighted_attention_no_ValueError:
  "similarity_weighted_attention targets ss \<noteq> Inl (ValueError message)"
  by (auto simp: similarity_weighted_attention_def attention_no_ValueError matmul_def
      split: sum.splits if_splits)

lemma self_similarity_attention_no_ValueError:
  "self_similarity_attention conv conv_1 inputs past_inputs batch_size input_size embedding_size
     \<noteq> Inl (ValueError message)"
  by (auto simp: self_similarity_attention_def input_embeddings_def concat_axis1_def
      matmul_transpose_b_def similarity_weighted_attention_no_ValueError
      split: sum.splits if_splits)

lemma rnn_layer_no_ValueError:
  "rnn_layer env hparams lengths past_targets layer st \<noteq> Inl (ValueError message)"
  by (auto simp: self_similarity_attention_no_ValueError rnn_layer_def Let_def py_index_def py_last_def make_rnn_cell_def
      concat_axis2_def split: sum.splits if_splits prod.splits)

lemma rnn_layers_no_ValueError:
  "rnn_layers env hparams lengths past_targets layers st \<noteq> Inl (ValueError message)"
  by (induction layers arbitrary: st) (auto simp: rnn_layer_no_ValueError split: sum.splits)

lemma zero_past_targets_no_ValueError:
  "zero_past_targets hparams layers past_targets \<noteq> Inl (ValueError message)"
  by (induction layers arbitrary: past_targets)
     (auto simp: py_index_def py_last_def split: sum.splits if_splits)

lemma placeholder_past_targets_no_ValueError:
  "placeholder_past_targets env hparams layers past_targets \<noteq> Inl (ValueError message)"
  by (induction layers arbitrary: past_targets)
     (auto simp: py_index_def py_last_def placeholder_def split: sum.splits if_splits)

lemma graph_inputs_no_ValueError:
  "graph_inputs mode hparams input_size sequence_example_file_paths env
     \<noteq> Inl (ValueError message)"
  by (auto simp: zero_past_targets_no_ValueError placeholder_past_targets_no_ValueError
      graph_inputs_def Let_def placeholder_def
      split: sum.splits if_splits prod.splits)

lemma train_eval_graph_no_ValueError:
  "train_eval_graph mode hparams encoder_decoder env labels lengths logits_flat
     self_similarity g \<noteq> Inl (ValueError message)"
  by (auto simp: train_eval_graph_def Let_def sparse_softmax_cross_entropy_with_logits_def
      split: sum.splits if_splits)

lemma generate_graph_no_ValueError:
  "generate_graph hparams num_classes env inputs past_targets logits_flat st g
     \<noteq> Inl (ValueError message)"
  by (auto simp: generate_graph_def Let_def generate_softmax_def reshape_batch_def
      split: sum.splits if_splits)

text \<open>
  Claim C5. For a mode other than \<open>train\<close>, \<open>eval\<close> and \<open>generate\<close>, build_graph
  raises the ValueError whose message ends with the mode it was given; the result is this
  error for every configuration and every collaborator, none of which is consulted, and no
  graph is returned. For the three valid modes build_graph raises no ValueError.
\<close>

theorem build_graph_mode_guard:
  "(mode \<notin> {''train'', ''eval'', ''generate''} \<longrightarrow>
      build_graph mode config sequence_example_file_paths env =
        Inl (ValueError
          (''The mode parameter must be 'train', 'eval', or 'generate'. The mode parameter was: ''
             @ mode))) \<and>
   (mode \<in> {''train'', ''eval'', ''generate''} \<longrightarrow>
      (\<forall>message. build_graph mode config sequence_example_file_paths env
                   \<noteq> Inl (ValueError message)))"
proof (intro conjI impI allI)
  assume "mode \<notin> {''train'', ''eval'', ''generate''}"
  then show "build_graph mode config sequence_example_file_paths env =
        Inl (ValueError
          (''The mode parameter must be 'train', 'eval', or 'generate'. The mode parameter was: ''
             @ mode))"
    by (simp add: build_graph_def)
next
  fix message
  assume v: "mode \<in> {''train'', ''eval'', ''generate''}"
  show "build_graph mode config sequence_example_file_paths env \<noteq> Inl (ValueError message)"
    using v
    by (auto simp: graph_inputs_no_ValueError rnn_layers_no_ValueError
        train_eval_graph_no_ValueError generate_graph_no_ValueError build_graph_def Let_def
        split: sum.splits prod.splits option.splits if_splits)
qed

theorem build_graph_mode_guard_witness:
  "''sample'' \<notin> {''train'', ''eval'', ''generate''} \<and>
   build_graph ''sample'' example_config None example_env =
     Inl (ValueError
       ''The mode parameter must be 'train', 'eval', or 'generate'. The mode parameter was: sample'') \<and>
   ''generate'' \<in> {''train'', ''eval'', ''generate''} \<and>
   build_graph ''generate'' example_config None example_env \<noteq>
     Inl (ValueError
       ''The mode parameter must be 'train', 'eval', or 'generate'. The mode parameter was: generate'')"
proof -
  have a: "''sample'' \<notin> {''train'', ''eval'', ''generate''}"
    and b: "''generate'' \<in> {''train'', ''eval'', ''generate''}"
    by simp_all
  from build_graph_mode_guard[of "''sample''" example_config None example_env] a
  have "build_graph ''sample'' example_config None example_env =
     Inl (ValueError
       ''The mode parameter must be 'train', 'eval', or 'generate'. The mode parameter was: sample'')"
    by simp
  moreover from build_graph_mode_guard[of "''generate''" example_config None example_env] b
  have "build_graph ''generate'' example_config None example_env \<noteq>
     Inl (ValueError
       ''The mode parameter must be 'train', 'eval', or 'generate'. The mode parameter was: generate'')"
    by blast
  ultimately show ?thesis using a b by blast
qed

end
